theory Spec2Isabelle
  imports Main "HOL-Library.Multiset" "HOL-Library.Option_ord" "HOL-Library.Product_Lexorder"
begin

section \<open>Entities of app.py\<close>

text \<open>
  The ORM classes of app.py, one record per class. Field names carry the table's initial
  because record fields are global constants (\<open>Dono.id\<close> is \<open>d_id\<close>,
  \<open>Propriedade.dono_id\<close> is \<open>p_dono_id\<close>, and so on).

  \<^item> \<open>db.Integer\<close> columns are \<open>int\<close>.
  \<^item> \<open>db.String\<close> columns are \<open>string\<close>; a character is one code point below 256,
    so the accented letters of the messages are single characters (\<open>CHR 0xE3\<close> is a-tilde).
  \<^item> A column without \<open>nullable=False\<close> is an \<open>option\<close>.
  \<^item> \<open>db.Numeric(10, 2)\<close> is a fixed-point decimal with two places: the \<open>int\<close> number of
    hundredths (15.50 ha is \<open>1550\<close>).
  \<^item> \<open>db.Date\<close> is the triple (year, month, day), ordered lexicographically.
\<close>

type_synonym date = "int \<times> int \<times> int"

record dono =
  d_id :: int
  d_nome :: string
  d_cpf_cnpj :: string
  d_email :: "string option"
  d_telefone :: "string option"

record propriedade =
  p_id :: int
  p_nome :: string
  p_municipio :: string
  p_estado :: string
  p_area_total_ha :: int
  p_dono_id :: int

record animal =
  a_id :: int
  a_tipo :: string
  a_raca :: "string option"

record lote =
  l_id :: int
  l_propriedade_id :: int
  l_animal_id :: int
  l_quantidade :: int
  l_data_registro :: "date option"

text \<open>The database: one list of rows per table, in insertion order.\<close>

record store =
  tb_dono :: "dono list"
  tb_propriedade :: "propriedade list"
  tb_animal :: "animal list"
  tb_lote :: "lote list"

section \<open>The relational primitives the queries use\<close>

text \<open>
  \<open>GROUP BY k\<close>: one group per distinct key, in order of first appearance. A group is
  never empty, so it is kept as its first row together with all its rows. Keys are
  compared as values (a binary collation); NULL is a key of its own, different from the
  empty string.
\<close>

fun group_by :: "('r \<Rightarrow> 'k) \<Rightarrow> 'r list \<Rightarrow> ('r \<times> 'r list) list" where
  "group_by k [] = []"
| "group_by k (r # rs) =
     (r, r # filter (\<lambda>x. k x = k r) rs) # group_by k (filter (\<lambda>x. k x \<noteq> k r) rs)"

text \<open>\<open>func.sum\<close> over the rows of a group: NULL (\<open>None\<close>) when there is no row.\<close>

definition func_sum :: "int list \<Rightarrow> int option" where
  "func_sum xs = (if xs = [] then None else Some (sum_list xs))"

text \<open>\<open>func.COALESCE(x, d)\<close>.\<close>

definition func_COALESCE :: "'a option \<Rightarrow> 'a \<Rightarrow> 'a" where
  "func_COALESCE x d = (case x of None \<Rightarrow> d | Some v \<Rightarrow> v)"

text \<open>
  \<open>ORDER BY key DESC\<close>. SQL leaves the order of rows with equal keys open; the model
  keeps them in their input order. NULL keys are the smallest and come last, as in MySQL
  (the order of \<open>option\<close> puts \<open>None\<close> below every \<open>Some\<close>).
\<close>

fun insert_desc :: "('a \<Rightarrow> 'k::linorder) \<Rightarrow> 'a \<Rightarrow> 'a list \<Rightarrow> 'a list" where
  "insert_desc f x [] = [x]"
| "insert_desc f x (y # ys) = (if f y \<le> f x then x # y # ys else y # insert_desc f x ys)"

definition order_by_desc :: "('a \<Rightarrow> 'k::linorder) \<Rightarrow> 'a list \<Rightarrow> 'a list" where
  "order_by_desc f xs = foldr (insert_desc f) xs []"

text \<open>
  Python's \<open>x or "Nao informado"\<close>: the label replaces a value that is falsy, which for a
  string column is NULL or the empty string.
\<close>

definition Nao_informado :: string where
  "Nao_informado = ''N'' @ [CHR 0xE3] @ ''o informado''"

definition raca_label :: "string option \<Rightarrow> string" where
  "raca_label r = (case r of None \<Rightarrow> Nao_informado
                   | Some v \<Rightarrow> if v = [] then Nao_informado else v)"

definition estado_label :: "string \<Rightarrow> string" where
  "estado_label e = (if e = [] then Nao_informado else e)"

section \<open>The four queries of bi\_dashboard\<close>

text \<open>
  Query 1: \<open>Dono JOIN Propriedade ON dono_id = Dono.id JOIN Lote ON propriedade_id =
  Propriedade.id GROUP BY Dono.id ORDER BY sum(quantidade) DESC\<close>.
\<close>

definition q1_join :: "store \<Rightarrow> (dono \<times> propriedade \<times> lote) list" where
  "q1_join s =
     concat (map (\<lambda>d.
       concat (map (\<lambda>p. map (\<lambda>l. (d, p, l))
                 (filter (\<lambda>l. l_propriedade_id l = p_id p) (tb_lote s)))
         (filter (\<lambda>p. p_dono_id p = d_id d) (tb_propriedade s))))
       (tb_dono s))"

definition q1_sum :: "dono \<times> propriedade \<times> lote \<Rightarrow> (dono \<times> propriedade \<times> lote) list \<Rightarrow> int option" where
  "q1_sum r g = func_sum (map (\<lambda>x. l_quantidade (snd (snd x))) g)"

definition q1 :: "store \<Rightarrow> (string \<times> int) list" where
  "q1 s = map (\<lambda>(r, g). (d_nome (fst r), func_COALESCE (q1_sum r g) 0))
            (order_by_desc (\<lambda>(r, g). q1_sum r g)
               (group_by (\<lambda>x. d_id (fst x)) (q1_join s)))"

definition animais_por_proprietario :: "store \<Rightarrow> (string \<times> int) list" where
  "animais_por_proprietario s = map (\<lambda>(proprietario, total_animais). (proprietario, total_animais)) (q1 s)"

text \<open>
  Query 2: \<open>Animal JOIN Lote ON animal_id = Animal.id GROUP BY Animal.raca ORDER BY
  sum(quantidade) DESC\<close>; the label is put in afterwards, row by row.
\<close>

definition q2_join :: "store \<Rightarrow> (animal \<times> lote) list" where
  "q2_join s =
     concat (map (\<lambda>a. map (\<lambda>l. (a, l)) (filter (\<lambda>l. l_animal_id l = a_id a) (tb_lote s)))
       (tb_animal s))"

definition q2_sum :: "animal \<times> lote \<Rightarrow> (animal \<times> lote) list \<Rightarrow> int option" where
  "q2_sum r g = func_sum (map (\<lambda>x. l_quantidade (snd x)) g)"

definition q2 :: "store \<Rightarrow> (string option \<times> int) list" where
  "q2 s = map (\<lambda>(r, g). (a_raca (fst r), func_COALESCE (q2_sum r g) 0))
            (order_by_desc (\<lambda>(r, g). q2_sum r g)
               (group_by (\<lambda>x. a_raca (fst x)) (q2_join s)))"

definition animais_por_raca :: "store \<Rightarrow> (string \<times> int) list" where
  "animais_por_raca s = map (\<lambda>(raca, total). (raca_label raca, total)) (q2 s)"

text \<open>
  Query 3: \<open>Dono JOIN Propriedade ON dono_id = Dono.id GROUP BY Dono.id ORDER BY
  sum(area_total_ha) DESC\<close>. The total is the exact decimal sum, in hundredths;
  \<open>float(r.total_ha)\<close>, the binary double nearest to it, is not modelled.
\<close>

definition q3_join :: "store \<Rightarrow> (dono \<times> propriedade) list" where
  "q3_join s =
     concat (map (\<lambda>d. map (\<lambda>p. (d, p)) (filter (\<lambda>p. p_dono_id p = d_id d) (tb_propriedade s)))
       (tb_dono s))"

definition q3_sum :: "dono \<times> propriedade \<Rightarrow> (dono \<times> propriedade) list \<Rightarrow> int option" where
  "q3_sum r g = func_sum (map (\<lambda>x. p_area_total_ha (snd x)) g)"

definition q3 :: "store \<Rightarrow> (string \<times> int) list" where
  "q3 s = map (\<lambda>(r, g). (d_nome (fst r), func_COALESCE (q3_sum r g) 0))
            (order_by_desc (\<lambda>(r, g). q3_sum r g)
               (group_by (\<lambda>x. d_id (fst x)) (q3_join s)))"

definition area_por_proprietario :: "store \<Rightarrow> (string \<times> int) list" where
  "area_por_proprietario s = map (\<lambda>(proprietario, total_ha). (proprietario, total_ha)) (q3 s)"

text \<open>
  Query 4: \<open>Propriedade GROUP BY estado ORDER BY count(id) DESC\<close>. The primary key is
  never NULL, so \<open>count(Propriedade.id)\<close> is the number of rows of the group.
\<close>

definition q4_count :: "propriedade \<Rightarrow> propriedade list \<Rightarrow> int" where
  "q4_count r g = int (length g)"

definition q4 :: "store \<Rightarrow> (string \<times> int) list" where
  "q4 s = map (\<lambda>(r, g). (p_estado r, q4_count r g))
            (order_by_desc (\<lambda>(r, g). q4_count r g)
               (group_by p_estado (tb_propriedade s)))"

definition fazendas_por_estado :: "store \<Rightarrow> (string \<times> int) list" where
  "fazendas_por_estado s = map (\<lambda>(estado, total_fazendas). (estado_label estado, total_fazendas)) (q4 s)"

section \<open>Exceptions, sessions, responses\<close>

text \<open>
  The exceptions the handlers tell apart: \<open>sqlalchemy.exc.IntegrityError\<close> and everything
  else that \<open>except Exception\<close> catches. Both carry the text that \<open>str(e)\<close> gives.
\<close>

datatype exc = IntegrityError string | Exception string

fun str_exc :: "exc \<Rightarrow> string" where
  "str_exc (IntegrityError m) = m"
| "str_exc (Exception m) = m"

text \<open>
  The database is an external service and any statement sent to it may raise (connection
  lost, engine error). \<open>faults n\<close> is the exception, if any, that the \<open>n\<close>-th
  statement of the request meets; \<open>execute\<close> runs a statement whose result would be
  \<open>v\<close>.
\<close>

type_synonym faults = "nat \<Rightarrow> exc option"

definition execute :: "faults \<Rightarrow> nat \<Rightarrow> 'a \<Rightarrow> exc + 'a" where
  "execute F n v = (case F n of Some e \<Rightarrow> Inl e | None \<Rightarrow> Inr v)"

text \<open>Sequencing inside a \<open>try\<close> block: the first exception leaves the block.\<close>

definition try_bind :: "exc + 'a \<Rightarrow> ('a \<Rightarrow> exc + 'b) \<Rightarrow> exc + 'b" where
  "try_bind m f = (case m of Inl e \<Rightarrow> Inl e | Inr v \<Rightarrow> f v)"

text \<open>
  What a request sees and changes: the Flask session, the database, and the queue of
  flashed messages (message, category).
\<close>

record world =
  session :: "string \<rightharpoonup> string"
  db :: store
  flashes :: "(string \<times> string) list"

definition flash :: "string \<Rightarrow> string \<Rightarrow> world \<Rightarrow> world" where
  "flash message category w = w\<lparr>flashes := flashes w @ [(message, category)]\<rparr>"

text \<open>The \<open>data\<close> dictionary of bi\_dashboard, one field per key.\<close>

record bi_data =
  bi_animais_por_proprietario :: "(string \<times> int) list"
  bi_animais_por_raca :: "(string \<times> int) list"
  bi_area_por_proprietario :: "(string \<times> int) list"
  bi_fazendas_por_estado :: "(string \<times> int) list"

text \<open>
  The keyword arguments of \<open>render_template('index.html', ...)\<close>, but for the constant
  \<open>show_menu=True\<close>.
\<close>

record index_ctx =
  ix_proprietarios_count :: int
  ix_propriedades_count :: int
  ix_propriedades_ativas :: int
  ix_animais_count :: int
  ix_tipos_animais :: int
  ix_lotes_count :: int
  ix_raca_animais :: int
  ix_lotes_ativos :: int
  ix_quantidade_count :: int
  ix_atividades_recentes :: "(string \<times> string \<times> string) list"
  ix_lotes :: "lote list"

text \<open>
  What a handler returns: \<open>redirect(url_for(endpoint))\<close>, \<open>jsonify(body)\<close> with its
  status code, or one of the two rendered pages (\<open>Render_bi\<close> is
  \<open>render_template("bi.html", show_menu=True)\<close>).
\<close>

datatype json_body = Data bi_data | Error string

datatype response =
    Redirect string
  | Json json_body nat
  | Render_bi
  | Render_index index_ctx

section \<open>login\_required\<close>

definition login_required :: "(world \<Rightarrow> response \<times> world) \<Rightarrow> world \<Rightarrow> response \<times> world" where
  "login_required f w =
     (if session w ''user'' = None
      then (Redirect ''login'',
            flash (''Fa'' @ [CHR 0xE7] @ ''a login para acessar esta p'' @ [CHR 0xE1] @ ''gina.'')
              ''warning'' w)
      else f w)"

section \<open>bi\_dashboard and bi\_dashboard\_page\<close>

text \<open>
  The \<open>try\<close> block of bi\_dashboard: four statements, each followed by the list
  comprehension that fills one key of \<open>data\<close>. The route has no decorator.
\<close>

definition bi_dashboard_try :: "faults \<Rightarrow> store \<Rightarrow> exc + bi_data" where
  "bi_dashboard_try F s =
     try_bind (execute F 0 (q1 s)) (\<lambda>r1.
     try_bind (execute F 1 (q2 s)) (\<lambda>r2.
     try_bind (execute F 2 (q3 s)) (\<lambda>r3.
     try_bind (execute F 3 (q4 s)) (\<lambda>r4.
       Inr \<lparr> bi_animais_por_proprietario =
               map (\<lambda>(proprietario, total_animais). (proprietario, total_animais)) r1,
             bi_animais_por_raca = map (\<lambda>(raca, total). (raca_label raca, total)) r2,
             bi_area_por_proprietario =
               map (\<lambda>(proprietario, total_ha). (proprietario, total_ha)) r3,
             bi_fazendas_por_estado =
               map (\<lambda>(estado, total_fazendas). (estado_label estado, total_fazendas)) r4 \<rparr>))))"

definition bi_dashboard :: "faults \<Rightarrow> world \<Rightarrow> response \<times> world" where
  "bi_dashboard F w =
     (case bi_dashboard_try F (db w) of
        Inr data \<Rightarrow> (Json (Data data) 200, w)
      | Inl e \<Rightarrow> (Json (Error (str_exc e)) 500, w))"

definition bi_dashboard_page :: "world \<Rightarrow> response \<times> world" where
  "bi_dashboard_page = login_required (\<lambda>w. (Render_bi, w))"

section \<open>index\<close>

text \<open>Python's \<open>x or 0\<close> on the result of \<open>.scalar()\<close>.\<close>

definition or_zero :: "int option \<Rightarrow> int" where
  "or_zero x = (case x of None \<Rightarrow> 0 | Some v \<Rightarrow> if v = 0 then 0 else v)"

text \<open>\<open>count(distinct c)\<close> does not count NULL.\<close>

definition count_distinct :: "'a option list \<Rightarrow> int option" where
  "count_distinct xs = Some (int (length (remdups (concat (map (\<lambda>x. case x of None \<Rightarrow> [] | Some v \<Rightarrow> [v]) xs)))))"

definition atividades_estaticas :: "(string \<times> string \<times> string) list" where
  "atividades_estaticas =
     [(''propriedade'', ''Nova propriedade cadastrada'', ''h'' @ [CHR 0xE1] @ '' 2 horas''),
      (''animal'', ''Novo tipo de animal registrado'', ''h'' @ [CHR 0xE1] @ '' 1 dia''),
      (''lote'', ''Lote de animais atualizado'', ''h'' @ [CHR 0xE1] @ '' 3 dias'')]"

definition index_try :: "faults \<Rightarrow> store \<Rightarrow> exc + index_ctx" where
  "index_try F s =
     try_bind (execute F 0 (int (length (tb_dono s)))) (\<lambda>proprietarios_count.
     try_bind (execute F 1 (int (length (tb_propriedade s)))) (\<lambda>propriedades_count.
     try_bind (execute F 2 (int (length (tb_animal s)))) (\<lambda>animais_count.
     try_bind (execute F 3 (int (length (tb_lote s)))) (\<lambda>lotes_count.
     try_bind (execute F 4 (func_sum (map l_quantidade (tb_lote s)))) (\<lambda>soma.
     try_bind (execute F 5 (count_distinct (map (\<lambda>a. Some (a_tipo a)) (tb_animal s)))) (\<lambda>tipos.
     try_bind (execute F 6 (count_distinct (map a_raca (tb_animal s)))) (\<lambda>racas.
     try_bind (execute F 7 (order_by_desc l_data_registro (tb_lote s))) (\<lambda>lotes.
       Inr \<lparr> ix_proprietarios_count = proprietarios_count,
             ix_propriedades_count = propriedades_count,
             ix_propriedades_ativas = propriedades_count,
             ix_animais_count = animais_count,
             ix_tipos_animais = or_zero tipos,
             ix_lotes_count = lotes_count,
             ix_raca_animais = or_zero racas,
             ix_lotes_ativos = lotes_count,
             ix_quantidade_count = or_zero soma,
             ix_atividades_recentes = atividades_estaticas,
             ix_lotes = lotes \<rparr>))))))))"

definition index_fallback :: index_ctx where
  "index_fallback =
     \<lparr> ix_proprietarios_count = 0, ix_propriedades_count = 0, ix_propriedades_ativas = 0,
       ix_animais_count = 0, ix_tipos_animais = 0, ix_lotes_count = 0, ix_raca_animais = 0,
       ix_lotes_ativos = 0, ix_quantidade_count = 0, ix_atividades_recentes = [],
       ix_lotes = [] \<rparr>"

definition index :: "faults \<Rightarrow> world \<Rightarrow> response \<times> world" where
  "index F = login_required (\<lambda>w.
     case index_try F (db w) of
       Inr ctx \<Rightarrow> (Render_index ctx, w)
     | Inl e \<Rightarrow>
         (Render_index index_fallback,
          flash (''Erro ao carregar dados do dashboard: '' @ str_exc e) ''danger'' w))"

section \<open>cadastrarProprietario\<close>

text \<open>
  \<open>str.strip()\<close>: the white space of Python among the code points below 256.
\<close>

definition isspace :: "char \<Rightarrow> bool" where
  "isspace c = (c \<in> set [CHR 0x09, CHR 0x0A, CHR 0x0B, CHR 0x0C, CHR 0x0D, CHR 0x1C, CHR 0x1D,
                          CHR 0x1E, CHR 0x1F, CHR 0x20, CHR 0x85, CHR 0xA0])"

definition strip :: "string \<Rightarrow> string" where
  "strip s = rev (dropWhile isspace (rev (dropWhile isspace s)))"

text \<open>\<open>request.form.get(k) or ''\<close>.\<close>

definition get_or_empty :: "(string \<rightharpoonup> string) \<Rightarrow> string \<Rightarrow> string" where
  "get_or_empty form k = (case form k of None \<Rightarrow> [] | Some v \<Rightarrow> v)"

text \<open>AUTO\_INCREMENT of a primary key: a value above every one in the table.\<close>

definition next_id :: "int list \<Rightarrow> int" where
  "next_id ids = fold max ids 0 + 1"

text \<open>
  \<open>db.session.add(novo); db.session.commit()\<close> for a Dono: the statement may meet a
  fault; the UNIQUE constraint on \<open>cpf_cnpj\<close> raises IntegrityError; otherwise the row is
  appended. On an exception nothing is written (the handler's rollback).
\<close>

definition add_commit_dono :: "faults \<Rightarrow> store \<Rightarrow> string \<Rightarrow> string \<Rightarrow> string \<Rightarrow> string \<Rightarrow> exc + store" where
  "add_commit_dono F s nome cpf_cnpj telefone email =
     (case F 0 of
        Some e \<Rightarrow> Inl e
      | None \<Rightarrow>
          if cpf_cnpj \<in> set (map d_cpf_cnpj (tb_dono s))
          then Inl (IntegrityError ''Duplicate entry for key cpf_cnpj'')
          else Inr (s\<lparr>tb_dono := tb_dono s @
                 [\<lparr> d_id = next_id (map d_id (tb_dono s)), d_nome = nome, d_cpf_cnpj = cpf_cnpj,
                    d_email = Some email, d_telefone = Some telefone \<rparr>]\<rparr>))"

definition cadastrarProprietario :: "faults \<Rightarrow> (string \<rightharpoonup> string) \<Rightarrow> world \<Rightarrow> response \<times> world" where
  "cadastrarProprietario F form = login_required (\<lambda>w.
     let nome = strip (get_or_empty form ''nome'');
         cpf_cnpj = strip (get_or_empty form ''cpf_cnpj'');
         telefone = strip (get_or_empty form ''telefone'');
         email = strip (get_or_empty form ''email'')
     in if nome = [] \<or> cpf_cnpj = []
        then (Redirect ''owners'',
              flash (''Campo nome e cpf/cnpj s'' @ [CHR 0xE3] @ ''o obrigat'' @ [CHR 0xF3] @ ''rios'')
                ''warning'' w)
        else
          (case add_commit_dono F (db w) nome cpf_cnpj telefone email of
             Inr s' \<Rightarrow>
               (Redirect ''owners'',
                flash (''Propriet'' @ [CHR 0xE1] @ ''rio cadastrado com sucesso.'') ''success''
                  (w\<lparr>db := s'\<rparr>))
           | Inl (IntegrityError m) \<Rightarrow>
               (Redirect ''owners'',
                flash (''CPF/CNPJ j'' @ [CHR 0xE1] @ '' cadastrado.'') ''warning'' w)
           | Inl (Exception m) \<Rightarrow>
               (Redirect ''owners'',
                flash (''Erro ao cadastrar propriet'' @ [CHR 0xE1] @ ''rio: '' @ m) ''danger'' w)))"

section \<open>lotes (POST)\<close>

text \<open>
  \<open>lotes_post\<close> is the branch \<open>request.method == 'POST'\<close> of the handler
  \<open>lotes\<close>; the GET branch only reads and renders.
\<close>

text \<open>
  The two library functions the handler calls on form text, taken as parameters:
  \<open>int(s)\<close>, which returns the number or raises ValueError (\<open>Inl\<close> its text), and
  \<open>datetime.strptime(s, '%Y-%m-%d').date()\<close>, \<open>None\<close> when it raises.
\<close>

record pylib =
  py_int :: "string \<Rightarrow> string + int"
  py_strptime :: "string \<Rightarrow> date option"

definition int_of :: "pylib \<Rightarrow> string \<Rightarrow> exc + int" where
  "int_of L s = (case py_int L s of Inl m \<Rightarrow> Inl (Exception m) | Inr n \<Rightarrow> Inr n)"

text \<open>Python's truth value of a form field: present and not empty.\<close>

definition truthy :: "string option \<Rightarrow> bool" where
  "truthy x = (case x of None \<Rightarrow> False | Some v \<Rightarrow> v \<noteq> [])"

text \<open>
  A \<open>db.Integer\<close> column is a signed 32-bit INT of MySQL. Python's \<open>int\<close> is unbounded,
  and an INSERT of a value outside the column's range raises (DataError, "Out of range
  value", under the strict mode that is MySQL's default); it is not an IntegrityError.
\<close>

definition in_int_column :: "int \<Rightarrow> bool" where
  "in_int_column n = (- 2147483648 \<le> n \<and> n \<le> 2147483647)"

text \<open>
  \<open>db.session.add(novo); db.session.commit()\<close> for a Lote: a fault of the statement, or
  the exception for a value that does not fit its INT column (the new primary key
  included), or IntegrityError when one of the two foreign keys has no target, or the row
  appended. On an exception nothing is written (the handler's rollback).
\<close>

definition add_commit_lote :: "faults \<Rightarrow> store \<Rightarrow> int \<Rightarrow> int \<Rightarrow> int \<Rightarrow> date option \<Rightarrow> exc + store" where
  "add_commit_lote F s propriedade_id animal_id quantidade data_registro =
     (case F 0 of
        Some e \<Rightarrow> Inl e
      | None \<Rightarrow>
          if \<not> (in_int_column (next_id (map l_id (tb_lote s))) \<and>
                in_int_column propriedade_id \<and> in_int_column animal_id \<and>
                in_int_column quantidade)
          then Inl (Exception ''Out of range value for column'')
          else if propriedade_id \<in> set (map p_id (tb_propriedade s)) \<and>
             animal_id \<in> set (map a_id (tb_animal s))
          then Inr (s\<lparr>tb_lote := tb_lote s @
                 [\<lparr> l_id = next_id (map l_id (tb_lote s)), l_propriedade_id = propriedade_id,
                    l_animal_id = animal_id, l_quantidade = quantidade,
                    l_data_registro = data_registro \<rparr>]\<rparr>)
          else Inl (IntegrityError ''a foreign key constraint fails''))"

definition lotes_try :: "pylib \<Rightarrow> faults \<Rightarrow> store \<Rightarrow> string \<Rightarrow> string \<Rightarrow> string \<Rightarrow> string option \<Rightarrow> exc + store" where
  "lotes_try L F s propriedade_id animal_id quantidade data_registro_str =
     try_bind (int_of L quantidade) (\<lambda>qnt.
       let data_registro_val =
             (case data_registro_str of
                None \<Rightarrow> None
              | Some v \<Rightarrow> if v = [] then None else py_strptime L v)
       in try_bind (int_of L propriedade_id) (\<lambda>pid.
          try_bind (int_of L animal_id) (\<lambda>aid.
            add_commit_lote F s pid aid qnt data_registro_val)))"

definition lotes_post :: "pylib \<Rightarrow> faults \<Rightarrow> (string \<rightharpoonup> string) \<Rightarrow> world \<Rightarrow> response \<times> world" where
  "lotes_post L F form = login_required (\<lambda>w.
     let propriedade_id = form ''propriedade_id'';
         animal_id = form ''animal_id'';
         quantidade = form ''quantidade'';
         data_registro_str = form ''data_registro''
     in if \<not> truthy propriedade_id \<or> \<not> truthy animal_id \<or> \<not> truthy quantidade
        then (Redirect ''lotes'',
              flash ''Informe propriedade, animal e quantidade.'' ''warning'' w)
        else
          (case lotes_try L F (db w) (get_or_empty form ''propriedade_id'')
                  (get_or_empty form ''animal_id'') (get_or_empty form ''quantidade'')
                  data_registro_str of
             Inr s' \<Rightarrow>
               (Redirect ''lotes'', flash ''Lote registrado com sucesso.'' ''success'' (w\<lparr>db := s'\<rparr>))
           | Inl e \<Rightarrow>
               (Redirect ''lotes'', flash (''Erro ao registrar lote: '' @ str_exc e) ''danger'' w)))"

section \<open>The reports as the specification words them\<close>

text \<open>
  These definitions follow the specification, not the queries: the Properties of an Owner,
  the Batches of a Property, the Batches reachable from an Owner through its Properties,
  and the two totals.
\<close>

definition spec_owner_properties :: "store \<Rightarrow> dono \<Rightarrow> propriedade list" where
  "spec_owner_properties s d = filter (\<lambda>p. p_dono_id p = d_id d) (tb_propriedade s)"

definition spec_property_batches :: "store \<Rightarrow> propriedade \<Rightarrow> lote list" where
  "spec_property_batches s p = filter (\<lambda>l. l_propriedade_id l = p_id p) (tb_lote s)"

definition spec_owner_batches :: "store \<Rightarrow> dono \<Rightarrow> lote list" where
  "spec_owner_batches s d = concat (map (spec_property_batches s) (spec_owner_properties s d))"

definition spec_owner_total_animals :: "store \<Rightarrow> dono \<Rightarrow> int" where
  "spec_owner_total_animals s d = sum_list (map l_quantidade (spec_owner_batches s d))"

definition spec_owner_total_hectares :: "store \<Rightarrow> dono \<Rightarrow> int" where
  "spec_owner_total_hectares s d = sum_list (map p_area_total_ha (spec_owner_properties s d))"

definition spec_owner_has_batch :: "store \<Rightarrow> dono \<Rightarrow> bool" where
  "spec_owner_has_batch s d =
     (\<exists>p\<in>set (spec_owner_properties s d). spec_property_batches s p \<noteq> [])"

text \<open>
  The rows that the joins of queries 1 and 3 produce for one Owner.
\<close>

definition q1_rows :: "store \<Rightarrow> dono \<Rightarrow> (dono \<times> propriedade \<times> lote) list" where
  "q1_rows s d = concat (map (\<lambda>p. map (\<lambda>l. (d, p, l)) (spec_property_batches s p))
                   (spec_owner_properties s d))"

definition q3_rows :: "store \<Rightarrow> dono \<Rightarrow> (dono \<times> propriedade) list" where
  "q3_rows s d = map (\<lambda>p. (d, p)) (spec_owner_properties s d)"

text \<open>
  The Batches of an AnimalKind, the Batches whose AnimalKind has a given breed value
  (NULL, the empty string or a name), and their total.
\<close>

definition spec_animal_batches :: "store \<Rightarrow> animal \<Rightarrow> lote list" where
  "spec_animal_batches s a = filter (\<lambda>l. l_animal_id l = a_id a) (tb_lote s)"

definition spec_breed_batches :: "store \<Rightarrow> string option \<Rightarrow> lote list" where
  "spec_breed_batches s b =
     concat (map (spec_animal_batches s) (filter (\<lambda>a. a_raca a = b) (tb_animal s)))"

definition spec_breed_total :: "store \<Rightarrow> string option \<Rightarrow> int" where
  "spec_breed_total s b = sum_list (map l_quantidade (spec_breed_batches s b))"

section \<open>Example databases\<close>

text \<open>
  Ana owns two Properties, of 10.00 ha with no Batch and of 5.50 ha with one Batch of 20.
\<close>

definition ana :: dono where
  "ana = \<lparr> d_id = 1, d_nome = ''Ana'', d_cpf_cnpj = ''111'', d_email = None, d_telefone = None \<rparr>"

definition store_ana :: store where
  "store_ana =
     \<lparr> tb_dono = [ana],
       tb_propriedade =
         [\<lparr> p_id = 1, p_nome = ''Norte'', p_municipio = ''Lages'', p_estado = ''SC'',
            p_area_total_ha = 1000, p_dono_id = 1 \<rparr>,
          \<lparr> p_id = 2, p_nome = ''Sul'', p_municipio = ''Lages'', p_estado = ''SC'',
            p_area_total_ha = 550, p_dono_id = 1 \<rparr>],
       tb_animal = [\<lparr> a_id = 1, a_tipo = ''Bovino'', a_raca = Some ''Nelore'' \<rparr>],
       tb_lote =
         [\<lparr> l_id = 1, l_propriedade_id = 2, l_animal_id = 1, l_quantidade = 20,
            l_data_registro = None \<rparr>] \<rparr>"

text \<open>
  Three Owners: Ana as above, Bia with no Property, Caio with one Property and no Batch;
  breeds Nelore, NULL and the empty string; one Property with an empty state.
\<close>

definition store_fazendas :: store where
  "store_fazendas =
     \<lparr> tb_dono =
         [ana,
          \<lparr> d_id = 2, d_nome = ''Bia'', d_cpf_cnpj = ''222'', d_email = None, d_telefone = None \<rparr>,
          \<lparr> d_id = 3, d_nome = ''Caio'', d_cpf_cnpj = ''333'', d_email = None, d_telefone = None \<rparr>],
       tb_propriedade =
         [\<lparr> p_id = 1, p_nome = ''Norte'', p_municipio = ''Lages'', p_estado = ''SC'',
            p_area_total_ha = 1000, p_dono_id = 1 \<rparr>,
          \<lparr> p_id = 2, p_nome = ''Sul'', p_municipio = ''Lages'', p_estado = ''SC'',
            p_area_total_ha = 550, p_dono_id = 1 \<rparr>,
          \<lparr> p_id = 3, p_nome = ''Leste'', p_municipio = ''Bag'' @ [CHR 0xE9], p_estado = [],
            p_area_total_ha = 30000, p_dono_id = 3 \<rparr>],
       tb_animal =
         [\<lparr> a_id = 1, a_tipo = ''Bovino'', a_raca = Some ''Nelore'' \<rparr>,
          \<lparr> a_id = 2, a_tipo = ''Equino'', a_raca = None \<rparr>,
          \<lparr> a_id = 3, a_tipo = ''Ovino'', a_raca = Some [] \<rparr>],
       tb_lote =
         [\<lparr> l_id = 1, l_propriedade_id = 2, l_animal_id = 1, l_quantidade = 20,
            l_data_registro = None \<rparr>,
          \<lparr> l_id = 2, l_propriedade_id = 1, l_animal_id = 2, l_quantidade = 5,
            l_data_registro = Some (2024, 1, 2) \<rparr>,
          \<lparr> l_id = 3, l_propriedade_id = 2, l_animal_id = 3, l_quantidade = 3,
            l_data_registro = None \<rparr>] \<rparr>"

text \<open>
  One Property with three Batches, of the breeds Nelore, NULL and NULL again; no breed is
  the empty string.
\<close>

definition store_racas_nulas :: store where
  "store_racas_nulas =
     \<lparr> tb_dono = [ana],
       tb_propriedade =
         [\<lparr> p_id = 1, p_nome = ''Norte'', p_municipio = ''Lages'', p_estado = ''SC'',
            p_area_total_ha = 1000, p_dono_id = 1 \<rparr>],
       tb_animal =
         [\<lparr> a_id = 1, a_tipo = ''Bovino'', a_raca = Some ''Nelore'' \<rparr>,
          \<lparr> a_id = 2, a_tipo = ''Equino'', a_raca = None \<rparr>,
          \<lparr> a_id = 3, a_tipo = ''Ovino'', a_raca = None \<rparr>],
       tb_lote =
         [\<lparr> l_id = 1, l_propriedade_id = 1, l_animal_id = 1, l_quantidade = 20,
            l_data_registro = None \<rparr>,
          \<lparr> l_id = 2, l_propriedade_id = 1, l_animal_id = 2, l_quantidade = 5,
            l_data_registro = None \<rparr>,
          \<lparr> l_id = 3, l_propriedade_id = 1, l_animal_id = 3, l_quantidade = 3,
            l_data_registro = None \<rparr>] \<rparr>"

text \<open>A logged-in request on the database of Ana, with nothing flashed yet.\<close>

definition world_ana :: world where
  "world_ana = \<lparr> session = [''user'' \<mapsto> ''admin''], db = store_ana, flashes = [] \<rparr>"

text \<open>The same request without a login.\<close>

definition world_anonimo :: world where
  "world_anonimo = \<lparr> session = Map.empty, db = store_ana, flashes = [] \<rparr>"

text \<open>No statement fails; the fifth statement of the request fails.\<close>

definition no_fault :: faults where
  "no_fault = (\<lambda>n. None)"

definition fault_at_4 :: faults where
  "fault_at_4 = (\<lambda>n. if n = 4 then Some (Exception ''server has gone away'') else None)"

text \<open>
  The values of \<open>int\<close> and \<open>strptime\<close> on the texts of the example forms.
\<close>

definition pylib_exemplo :: pylib where
  "pylib_exemplo =
     \<lparr> py_int = (\<lambda>s. if s = ''1'' then Inr 1 else if s = ''2'' then Inr 2
                       else if s = ''20'' then Inr 20
                       else if s = ''3000000000'' then Inr 3000000000
                       else Inl (''invalid literal for int() with base 10'')),
       py_strptime = (\<lambda>s. if s = ''2024-01-02'' then Some (2024, 1, 2) else None) \<rparr>"

definition form_dono_duplicado :: "string \<rightharpoonup> string" where
  "form_dono_duplicado = [''nome'' \<mapsto> ''Ana Maria'', ''cpf_cnpj'' \<mapsto> '' 111 '']"

definition form_lote_quantidade_grande :: "string \<rightharpoonup> string" where
  "form_lote_quantidade_grande =
     [''propriedade_id'' \<mapsto> ''1'', ''animal_id'' \<mapsto> ''1'', ''quantidade'' \<mapsto> ''3000000000'',
      ''data_registro'' \<mapsto> ''02/01/2024'']"

definition form_lote_data_ruim :: "string \<rightharpoonup> string" where
  "form_lote_data_ruim =
     [''propriedade_id'' \<mapsto> ''1'', ''animal_id'' \<mapsto> ''1'', ''quantidade'' \<mapsto> ''20'',
      ''data_registro'' \<mapsto> ''02/01/2024'']"

text \<open>The third statement of the request fails.\<close>

definition fault_at_2 :: faults where
  "fault_at_2 = (\<lambda>n. if n = 2 then Some (Exception ''server has gone away'') else None)"

section \<open>Facts about the relational primitives\<close>

lemma set_insert_desc: "set (insert_desc f x ys) = insert x (set ys)"
  by (induction ys) auto

lemma sorted_insert_desc:
  "sorted_wrt (\<lambda>a b. f b \<le> f a) ys \<Longrightarrow> sorted_wrt (\<lambda>a b. f b \<le> f a) (insert_desc f x ys)"
  by (induction ys) (auto simp: set_insert_desc)

lemma sorted_order_by_desc: "sorted_wrt (\<lambda>a b. f b \<le> f a) (order_by_desc f xs)"
  unfolding order_by_desc_def by (induction xs) (simp_all add: sorted_insert_desc)

lemma mset_insert_desc: "mset (insert_desc f x ys) = add_mset x (mset ys)"
  by (induction ys) auto

lemma mset_order_by_desc: "mset (order_by_desc f xs) = mset xs"
  unfolding order_by_desc_def by (induction xs) (simp_all add: mset_insert_desc)

lemma set_order_by_desc: "set (order_by_desc f xs) = set xs"
  using mset_order_by_desc [of f xs] by (metis set_mset_mset)

lemma group_by_head: "(r, g) \<in> set (group_by k rs) \<Longrightarrow> \<exists>t. g = r # t"
  by (induction k rs rule: group_by.induct) auto

lemma sorted_wrt_map_weaken:
  assumes "sorted_wrt (\<lambda>a b. f b \<le> f a) xs"
    and "\<And>a b. a \<in> set xs \<Longrightarrow> b \<in> set xs \<Longrightarrow> f b \<le> f a \<Longrightarrow> h b \<le> h a"
  shows "sorted_wrt (\<lambda>a b. b \<le> a) (map h xs)"
  using assms by (induction xs) (auto simp: sorted_wrt_map)

section \<open>Ordering of the four reports\<close>

lemma sorted_desc_rows:
  assumes "\<And>r g. (r, g) \<in> set G \<Longrightarrow> key (r, g) = Some (agg (r, g))"
  shows "sorted_wrt (\<lambda>a b. b \<le> a) (map agg (order_by_desc key G))"
proof (rule sorted_wrt_map_weaken [OF sorted_order_by_desc])
  fix a b
  assume a: "a \<in> set (order_by_desc key G)" and b: "b \<in> set (order_by_desc key G)"
    and le: "key b \<le> key a"
  from a have "key a = Some (agg a)"
    using assms [of "fst a" "snd a"] by (simp add: set_order_by_desc)
  moreover from b have "key b = Some (agg b)"
    using assms [of "fst b" "snd b"] by (simp add: set_order_by_desc)
  ultimately show "agg b \<le> agg a"
    using le by simp
qed

lemma q1_sorted: "sorted_wrt (\<lambda>a b. b \<le> a) (map snd (q1 s))"
proof -
  let ?G = "group_by (\<lambda>x. d_id (fst x)) (q1_join s)"
  have "sorted_wrt (\<lambda>a b. b \<le> a)
          (map (\<lambda>(r, g). func_COALESCE (q1_sum r g) 0) (order_by_desc (\<lambda>(r, g). q1_sum r g) ?G))"
    by (rule sorted_desc_rows)
       (auto dest!: group_by_head simp: q1_sum_def func_sum_def func_COALESCE_def)
  then show ?thesis
    by (simp add: q1_def comp_def case_prod_unfold)
qed

lemma q2_sorted: "sorted_wrt (\<lambda>a b. b \<le> a) (map snd (q2 s))"
proof -
  let ?G = "group_by (\<lambda>x. a_raca (fst x)) (q2_join s)"
  have "sorted_wrt (\<lambda>a b. b \<le> a)
          (map (\<lambda>(r, g). func_COALESCE (q2_sum r g) 0) (order_by_desc (\<lambda>(r, g). q2_sum r g) ?G))"
    by (rule sorted_desc_rows)
       (auto dest!: group_by_head simp: q2_sum_def func_sum_def func_COALESCE_def)
  then show ?thesis
    by (simp add: q2_def comp_def case_prod_unfold)
qed

lemma q3_sorted: "sorted_wrt (\<lambda>a b. b \<le> a) (map snd (q3 s))"
proof -
  let ?G = "group_by (\<lambda>x. d_id (fst x)) (q3_join s)"
  have "sorted_wrt (\<lambda>a b. b \<le> a)
          (map (\<lambda>(r, g). func_COALESCE (q3_sum r g) 0) (order_by_desc (\<lambda>(r, g). q3_sum r g) ?G))"
    by (rule sorted_desc_rows)
       (auto dest!: group_by_head simp: q3_sum_def func_sum_def func_COALESCE_def)
  then show ?thesis
    by (simp add: q3_def comp_def case_prod_unfold)
qed

lemma q4_sorted: "sorted_wrt (\<lambda>a b. b \<le> a) (map snd (q4 s))"
  using sorted_order_by_desc [of "\<lambda>(r, g). q4_count r g" "group_by p_estado (tb_propriedade s)"]
  by (simp add: q4_def comp_def case_prod_unfold sorted_wrt_map)

text \<open>
  Claim C5. For every database, each of the four sequences of the BI bundle (animals per
  owner, animals per breed, area per owner, farms per state) is in descending order of its
  aggregate value: a row never has a smaller aggregate than a row after it. Rows with equal
  aggregates may come in any order.
\<close>

theorem bi_outputs_descending:
  "sorted_wrt (\<lambda>a b. snd b \<le> snd a) (animais_por_proprietario s) \<and>
   sorted_wrt (\<lambda>a b. snd b \<le> snd a) (animais_por_raca s) \<and>
   sorted_wrt (\<lambda>a b. snd b \<le> snd a) (area_por_proprietario s) \<and>
   sorted_wrt (\<lambda>a b. snd b \<le> snd a) (fazendas_por_estado s)"
  using q1_sorted [of s] q2_sorted [of s] q3_sorted [of s] q4_sorted [of s]
  by (simp add: animais_por_proprietario_def animais_por_raca_def area_por_proprietario_def
      fazendas_por_estado_def sorted_wrt_map case_prod_unfold)

theorem bi_outputs_descending_witness:
  "sorted_wrt (\<lambda>a b. snd b \<le> snd a) (animais_por_proprietario store_fazendas) \<and>
   sorted_wrt (\<lambda>a b. snd b \<le> snd a) (animais_por_raca store_fazendas) \<and>
   sorted_wrt (\<lambda>a b. snd b \<le> snd a) (area_por_proprietario store_fazendas) \<and>
   sorted_wrt (\<lambda>a b. snd b \<le> snd a) (fazendas_por_estado store_fazendas)"
  by (rule bi_outputs_descending)

section \<open>The login gate and the BI endpoint\<close>

text \<open>
  Claim C10. The JSON endpoint /api/bi/dashboard makes no authentication check: whatever the
  session holds, it answers with the JSON bundle or the JSON error (the answer depends on
  the database and the faults only), it never redirects, and it flashes nothing. The page
  route /bi/dashboard is gated: without a login it redirects to the login page, with one it
  renders the page.
\<close>

theorem bi_api_not_login_gated:
  "snd (bi_dashboard F w) = w \<and>
   (\<exists>body status. fst (bi_dashboard F w) = Json body status) \<and>
   (db w' = db w \<longrightarrow> fst (bi_dashboard F w') = fst (bi_dashboard F w)) \<and>
   (session w ''user'' = None \<longrightarrow> fst (bi_dashboard_page w) = Redirect ''login'') \<and>
   (session w ''user'' \<noteq> None \<longrightarrow> bi_dashboard_page w = (Render_bi, w))"
  by (auto simp: bi_dashboard_def bi_dashboard_page_def login_required_def split: sum.splits)

theorem bi_api_not_login_gated_witness:
  "fst (bi_dashboard no_fault world_anonimo) = fst (bi_dashboard no_fault world_ana) \<and>
   fst (bi_dashboard_page world_anonimo) = Redirect ''login'' \<and>
   bi_dashboard_page world_ana = (Render_bi, world_ana)"
  using bi_api_not_login_gated [of no_fault world_ana world_anonimo]
    bi_api_not_login_gated [of no_fault world_anonimo world_anonimo]
  by (simp add: world_anonimo_def world_ana_def)

section \<open>Failure policies of the two bundles\<close>

lemma bi_dashboard_try_ok:
  assumes "F 0 = None" "F 1 = None" "F 2 = None" "F 3 = None"
  shows "bi_dashboard_try F s =
           Inr \<lparr> bi_animais_por_proprietario = animais_por_proprietario s,
                 bi_animais_por_raca = animais_por_raca s,
                 bi_area_por_proprietario = area_por_proprietario s,
                 bi_fazendas_por_estado = fazendas_por_estado s \<rparr>"
  using assms
  by (simp add: bi_dashboard_try_def try_bind_def execute_def animais_por_proprietario_def
      animais_por_raca_def area_por_proprietario_def fazendas_por_estado_def)

lemma bi_dashboard_try_fail:
  assumes "n \<in> {0, 1, 2, 3}" "F n = Some e" "\<forall>m<n. F m = None"
  shows "bi_dashboard_try F s = Inl e"
proof -
  from assms(1) consider "n = 0" | "n = 1" | "n = 2" | "n = 3" by auto
  then show ?thesis
  proof cases
    case 1
    then show ?thesis using assms(2)
      by (simp add: bi_dashboard_try_def try_bind_def execute_def)
  next
    case 2
    then have "F 0 = None" using assms(3) by simp
    then show ?thesis using assms(2) 2
      by (simp add: bi_dashboard_try_def try_bind_def execute_def)
  next
    case 3
    then have "F 0 = None" "F 1 = None" using assms(3) by simp_all
    then show ?thesis using assms(2) 3
      by (simp add: bi_dashboard_try_def try_bind_def execute_def)
  next
    case 4
    then have "F 0 = None" "F 1 = None" "F 2 = None" using assms(3) by simp_all
    then show ?thesis using assms(2) 4
      by (simp add: bi_dashboard_try_def try_bind_def execute_def)
  qed
qed

lemma first_fault_below:
  assumes "F (n::nat) \<noteq> None"
  shows "\<exists>k\<le>n. F k \<noteq> None \<and> (\<forall>m<k. F m = None)"
proof -
  let ?k = "LEAST k. F k \<noteq> None"
  have "F ?k \<noteq> None" using assms by (rule LeastI)
  moreover have "?k \<le> n" using assms by (rule Least_le)
  moreover have "\<forall>m<?k. F m = None" using not_less_Least by blast
  ultimately show ?thesis by blast
qed

text \<open>
  Claim C6. bi\_dashboard is atomic: when none of its four queries raises, the answer is
  status 200 with the four named arrays; when one raises, the answer is the single object
  \<open>{"error": message}\<close> with status 500, the message being that of the first query
  that raised, and none of the arrays is returned.
\<close>

theorem bi_dashboard_atomic:
  "((\<forall>n\<in>{0, 1, 2, 3}. F n = None) \<longrightarrow>
      bi_dashboard F w =
        (Json (Data \<lparr> bi_animais_por_proprietario = animais_por_proprietario (db w),
                       bi_animais_por_raca = animais_por_raca (db w),
                       bi_area_por_proprietario = area_por_proprietario (db w),
                       bi_fazendas_por_estado = fazendas_por_estado (db w) \<rparr>) 200, w)) \<and>
   (\<forall>n\<in>{0, 1, 2, 3}. \<forall>e. F n = Some e \<and> (\<forall>m<n. F m = None) \<longrightarrow>
      bi_dashboard F w = (Json (Error (str_exc e)) 500, w)) \<and>
   ((\<exists>n\<in>{0, 1, 2, 3}. F n \<noteq> None) \<longrightarrow>
      (\<exists>message. bi_dashboard F w = (Json (Error message) 500, w)))"
proof (intro conjI impI ballI allI)
  assume "\<forall>n\<in>{0, 1, 2, 3}. F n = None"
  then show "bi_dashboard F w =
        (Json (Data \<lparr> bi_animais_por_proprietario = animais_por_proprietario (db w),
                       bi_animais_por_raca = animais_por_raca (db w),
                       bi_area_por_proprietario = area_por_proprietario (db w),
                       bi_fazendas_por_estado = fazendas_por_estado (db w) \<rparr>) 200, w)"
    by (simp add: bi_dashboard_def bi_dashboard_try_ok)
next
  fix n e
  assume "n \<in> {0, 1, 2, 3::nat}" and "F n = Some e \<and> (\<forall>m<n. F m = None)"
  then show "bi_dashboard F w = (Json (Error (str_exc e)) 500, w)"
    by (simp add: bi_dashboard_def bi_dashboard_try_fail [of n F e])
next
  assume "\<exists>n\<in>{0, 1, 2, 3}. F n \<noteq> None"
  then obtain n where n: "n \<in> {0, 1, 2, 3}" "F n \<noteq> None" by blast
  from first_fault_below [of F n] n(2) obtain k e where
    k: "k \<le> n" "F k = Some e" "\<forall>m<k. F m = None" by auto
  from n(1) k(1) have "k \<in> {0, 1, 2, 3}" by auto
  then have "bi_dashboard_try F (db w) = Inl e"
    using k by (intro bi_dashboard_try_fail) auto
  then show "\<exists>message. bi_dashboard F w = (Json (Error message) 500, w)"
    by (simp add: bi_dashboard_def)
qed

theorem bi_dashboard_atomic_witness:
  "bi_dashboard fault_at_2 world_ana = (Json (Error ''server has gone away'') 500, world_ana) \<and>
   bi_dashboard no_fault world_ana =
     (Json (Data \<lparr> bi_animais_por_proprietario = animais_por_proprietario store_ana,
                    bi_animais_por_raca = animais_por_raca store_ana,
                    bi_area_por_proprietario = area_por_proprietario store_ana,
                    bi_fazendas_por_estado = fazendas_por_estado store_ana \<rparr>) 200, world_ana)"
  using bi_dashboard_atomic [of fault_at_2 world_ana] bi_dashboard_atomic [of no_fault world_ana]
  by (simp add: fault_at_2_def no_fault_def world_ana_def)

lemma index_try_fail:
  assumes "n \<in> {0, 1, 2, 3, 4, 5, 6, 7}" "F n = Some e" "\<forall>m<n. F m = None"
  shows "index_try F s = Inl e"
proof -
  have below: "\<And>m. m < n \<Longrightarrow> F m = None" using assms(3) by blast
  from assms(1) consider "n = 0" | "n = 1" | "n = 2" | "n = 3" | "n = 4" | "n = 5" | "n = 6" | "n = 7"
    by auto
  then show ?thesis
  proof cases
    case 1
    then show ?thesis using assms(2)
      by (simp add: index_try_def try_bind_def execute_def)
  next
    case 2
    then show ?thesis using assms(2) below [of 0]
      by (simp add: index_try_def try_bind_def execute_def)
  next
    case 3
    then show ?thesis using assms(2) below [of 0] below [of 1]
      by (simp add: index_try_def try_bind_def execute_def)
  next
    case 4
    then show ?thesis using assms(2) below [of 0] below [of 1] below [of 2]
      by (simp add: index_try_def try_bind_def execute_def)
  next
    case 5
    then show ?thesis using assms(2) below [of 0] below [of 1] below [of 2] below [of 3]
      by (simp add: index_try_def try_bind_def execute_def)
  next
    case 6
    then show ?thesis using assms(2) below [of 0] below [of 1] below [of 2] below [of 3] below [of 4]
      by (simp add: index_try_def try_bind_def execute_def)
  next
    case 7
    then show ?thesis
      using assms(2) below [of 0] below [of 1] below [of 2] below [of 3] below [of 4] below [of 5]
      by (simp add: index_try_def try_bind_def execute_def)
  next
    case 8
    then show ?thesis
      using assms(2) below [of 0] below [of 1] below [of 2] below [of 3] below [of 4] below [of 5]
        below [of 6]
      by (simp add: index_try_def try_bind_def execute_def)
  qed
qed

text \<open>
  Claim C7 says that a failing statistic leaves one warning-level message. The message
  index flashes has the category danger: here the fifth statement fails.
\<close>

theorem index_warning_counterexample:
  "map snd (flashes (snd (index fault_at_4 world_ana))) = [''danger'']"
  by (simp add: index_def login_required_def world_ana_def index_try_def try_bind_def execute_def
      fault_at_4_def flash_def)

text \<open>
  Claim C7, amended. For a logged-in request, if any of the eight statements of index
  (the four counts, the summed quantity, the two distinct counts, the list of batches)
  raises, the page is rendered with every scalar zero and both lists empty, and exactly
  one message is flashed for the whole bundle, of category danger, carrying the text of the
  exception.
\<close>

theorem index_fail_to_zero:
  assumes "session w ''user'' \<noteq> None"
    and "n \<in> {0, 1, 2, 3, 4, 5, 6, 7}" and "F n \<noteq> None"
  shows "\<exists>e. index F w =
           (Render_index
              \<lparr> ix_proprietarios_count = 0, ix_propriedades_count = 0, ix_propriedades_ativas = 0,
                ix_animais_count = 0, ix_tipos_animais = 0, ix_lotes_count = 0,
                ix_raca_animais = 0, ix_lotes_ativos = 0, ix_quantidade_count = 0,
                ix_atividades_recentes = [], ix_lotes = [] \<rparr>,
            w\<lparr>flashes := flashes w @
                 [(''Erro ao carregar dados do dashboard: '' @ str_exc e, ''danger'')]\<rparr>)"
proof -
  from first_fault_below [of F n] assms(3) obtain k e where
    k: "k \<le> n" "F k = Some e" "\<forall>m<k. F m = None" by auto
  from assms(2) k(1) have "k \<in> {0, 1, 2, 3, 4, 5, 6, 7}" by auto
  then have "index_try F (db w) = Inl e"
    using k by (intro index_try_fail) auto
  then have "index F w =
           (Render_index index_fallback,
            flash (''Erro ao carregar dados do dashboard: '' @ str_exc e) ''danger'' w)"
    using assms(1) by (auto simp: index_def login_required_def)
  then show ?thesis
    by (auto simp: index_fallback_def flash_def)
qed

theorem index_fail_to_zero_witness:
  "index fault_at_4 world_ana =
     (Render_index
        \<lparr> ix_proprietarios_count = 0, ix_propriedades_count = 0, ix_propriedades_ativas = 0,
          ix_animais_count = 0, ix_tipos_animais = 0, ix_lotes_count = 0,
          ix_raca_animais = 0, ix_lotes_ativos = 0, ix_quantidade_count = 0,
          ix_atividades_recentes = [], ix_lotes = [] \<rparr>,
      world_ana\<lparr>flashes :=
        [(''Erro ao carregar dados do dashboard: server has gone away'', ''danger'')]\<rparr>)"
proof -
  have a: "session world_ana ''user'' \<noteq> None" by (simp add: world_ana_def)
  have b: "(4::nat) \<in> {0, 1, 2, 3, 4, 5, 6, 7}" by simp
  have c: "fault_at_4 4 \<noteq> None" by (simp add: fault_at_4_def)
  from index_fail_to_zero [where w = world_ana and n = 4 and F = fault_at_4] a b c obtain e where
    e: "index fault_at_4 world_ana =
           (Render_index
              \<lparr> ix_proprietarios_count = 0, ix_propriedades_count = 0, ix_propriedades_ativas = 0,
                ix_animais_count = 0, ix_tipos_animais = 0, ix_lotes_count = 0,
                ix_raca_animais = 0, ix_lotes_ativos = 0, ix_quantidade_count = 0,
                ix_atividades_recentes = [], ix_lotes = [] \<rparr>,
            world_ana\<lparr>flashes := flashes world_ana @
                 [(''Erro ao carregar dados do dashboard: '' @ str_exc e, ''danger'')]\<rparr>)"
    by blast
  have "flashes (snd (index fault_at_4 world_ana)) =
          [(''Erro ao carregar dados do dashboard: server has gone away'', ''danger'')]"
    by (simp add: index_def login_required_def world_ana_def index_try_def try_bind_def execute_def
      fault_at_4_def flash_def)
  with e have "str_exc e = ''server has gone away''"
    by (simp add: world_ana_def)
  with e show ?thesis by (simp add: world_ana_def)
qed

section \<open>Creating an Owner with a tax-id that exists\<close>

lemma add_commit_dono_duplicate:
  assumes "d \<in> set (tb_dono s)" "cpf = d_cpf_cnpj d"
  shows "add_commit_dono F s nome cpf telefone email =
           (case F 0 of Some e \<Rightarrow> Inl e
            | None \<Rightarrow> Inl (IntegrityError ''Duplicate entry for key cpf_cnpj''))"
  using assms by (auto simp: add_commit_dono_def split: option.splits)

lemma rejected_shape:
  assumes "res = (Redirect target, w\<lparr>flashes := flashes w @ [(message, category)]\<rparr>)"
    and "category = ''warning'' \<or> (category = ''danger'' \<and> (\<exists>m. F 0 = Some (Exception m)))"
  shows "(\<exists>target message category.
            res = (Redirect target, w\<lparr>flashes := flashes w @ [(message, category)]\<rparr>) \<and>
            (category = ''warning'' \<or> category = ''danger'') \<and>
            ((\<forall>m. F 0 \<noteq> Some (Exception m)) \<longrightarrow> category = ''warning'')) \<and>
         db (snd res) = db w"
proof -
  have "(category = ''warning'' \<or> category = ''danger'') \<and>
        ((\<forall>m. F 0 \<noteq> Some (Exception m)) \<longrightarrow> category = ''warning'')"
    using assms(2) by blast
  with assms(1) have shape: "\<exists>target message category.
            res = (Redirect target, w\<lparr>flashes := flashes w @ [(message, category)]\<rparr>) \<and>
            (category = ''warning'' \<or> category = ''danger'') \<and>
            ((\<forall>m. F 0 \<noteq> Some (Exception m)) \<longrightarrow> category = ''warning'')"
    by blast
  have "db (snd res) = db w"
    using assms(1) by simp
  with shape show ?thesis by (rule conjI)
qed

text \<open>
  Claim C8. Let the database hold an Owner whose tax-id is the one submitted (the form
  text after \<open>strip\<close>, which is what the new Owner would carry). Then the creation
  fails: the whole database is left as it was, the handler answers with a redirect (it
  does not crash) and flashes exactly one message. The message is of category warning,
  unless the database met an unrelated exception on the insert, which is reported as
  danger. For a logged-in request with a name, with no such exception, the message is
  the one for a tax-id already registered.
\<close>

theorem duplicate_tax_id_rejected:
  assumes "d \<in> set (tb_dono (db w))"
    and "strip (get_or_empty form ''cpf_cnpj'') = d_cpf_cnpj d"
  shows "(\<exists>target message category.
            cadastrarProprietario F form w =
              (Redirect target, w\<lparr>flashes := flashes w @ [(message, category)]\<rparr>) \<and>
            (category = ''warning'' \<or> category = ''danger'') \<and>
            ((\<forall>m. F 0 \<noteq> Some (Exception m)) \<longrightarrow> category = ''warning'')) \<and>
         db (snd (cadastrarProprietario F form w)) = db w \<and>
         (session w ''user'' \<noteq> None \<and> strip (get_or_empty form ''nome'') \<noteq> [] \<and>
          d_cpf_cnpj d \<noteq> [] \<and> F 0 = None \<longrightarrow>
            cadastrarProprietario F form w =
              (Redirect ''owners'',
               w\<lparr>flashes := flashes w @
                    [(''CPF/CNPJ j'' @ [CHR 0xE1] @ '' cadastrado.'', ''warning'')]\<rparr>))"
proof -
  let ?res = "cadastrarProprietario F form w"
  let ?dup = "(Redirect ''owners'',
               w\<lparr>flashes := flashes w @
                    [(''CPF/CNPJ j'' @ [CHR 0xE1] @ '' cadastrado.'', ''warning'')]\<rparr>)"
  have dup: "\<And>nome telefone email.
      add_commit_dono F (db w) nome (d_cpf_cnpj d) telefone email =
         (case F 0 of Some e \<Rightarrow> Inl e
          | None \<Rightarrow> Inl (IntegrityError ''Duplicate entry for key cpf_cnpj''))"
    using assms(1) by (rule add_commit_dono_duplicate) simp
  have exact: "?res = ?dup"
    if "session w ''user'' \<noteq> None" "strip (get_or_empty form ''nome'') \<noteq> []"
      "d_cpf_cnpj d \<noteq> []" "F 0 = None"
    using that assms(2) dup
    by (auto simp: cadastrarProprietario_def login_required_def flash_def Let_def)
  have "\<exists>target message category.
          ?res = (Redirect target, w\<lparr>flashes := flashes w @ [(message, category)]\<rparr>) \<and>
          (category = ''warning'' \<or> (category = ''danger'' \<and> (\<exists>m. F 0 = Some (Exception m))))"
  proof (cases "session w ''user''")
    case None
    then have "?res = (Redirect ''login'', w\<lparr>flashes := flashes w @
        [(''Fa'' @ [CHR 0xE7] @ ''a login para acessar esta p'' @ [CHR 0xE1] @ ''gina.'', ''warning'')]\<rparr>)"
      by (simp add: cadastrarProprietario_def login_required_def flash_def)
    then show ?thesis by blast
  next
    case user: (Some u)
    show ?thesis
    proof (cases "strip (get_or_empty form ''nome'') = [] \<or> d_cpf_cnpj d = []")
      case True
      then have "?res = (Redirect ''owners'', w\<lparr>flashes := flashes w @
          [(''Campo nome e cpf/cnpj s'' @ [CHR 0xE3] @ ''o obrigat'' @ [CHR 0xF3] @ ''rios'', ''warning'')]\<rparr>)"
        using user assms(2)
        by (auto simp: cadastrarProprietario_def login_required_def flash_def Let_def)
      then show ?thesis by blast
    next
      case False
      show ?thesis
      proof (cases "F 0")
        case None
        then have "?res = ?dup" using user False by (intro exact) simp_all
        then show ?thesis by blast
      next
        case (Some e)
        show ?thesis
        proof (cases e)
          case (IntegrityError m)
          then have "?res = ?dup" using Some user False assms(2) dup
            by (simp add: cadastrarProprietario_def login_required_def flash_def Let_def)
          then show ?thesis by blast
        next
          case (Exception m)
          then have "?res = (Redirect ''owners'', w\<lparr>flashes := flashes w @
             [(''Erro ao cadastrar propriet'' @ [CHR 0xE1] @ ''rio: '' @ m, ''danger'')]\<rparr>)"
            using Some user False assms(2) dup
            by (simp add: cadastrarProprietario_def login_required_def flash_def Let_def)
          then show ?thesis using Some Exception by blast
        qed
      qed
    qed
  qed
  then obtain target message category where
    r: "?res = (Redirect target, w\<lparr>flashes := flashes w @ [(message, category)]\<rparr>)"
    and c: "category = ''warning'' \<or> (category = ''danger'' \<and> (\<exists>m. F 0 = Some (Exception m)))"
    by blast
  from r c have "(\<exists>target message category.
            ?res = (Redirect target, w\<lparr>flashes := flashes w @ [(message, category)]\<rparr>) \<and>
            (category = ''warning'' \<or> category = ''danger'') \<and>
            ((\<forall>m. F 0 \<noteq> Some (Exception m)) \<longrightarrow> category = ''warning'')) \<and>
         db (snd ?res) = db w"
    by (rule rejected_shape [where F = F])
  with exact show ?thesis by blast
qed

theorem duplicate_tax_id_rejected_witness:
  "cadastrarProprietario no_fault form_dono_duplicado world_ana =
     (Redirect ''owners'',
      world_ana\<lparr>flashes := [(''CPF/CNPJ j'' @ [CHR 0xE1] @ '' cadastrado.'', ''warning'')]\<rparr>) \<and>
   tb_dono (db (snd (cadastrarProprietario no_fault form_dono_duplicado world_ana))) = [ana]"
proof -
  have a: "ana \<in> set (tb_dono (db world_ana))"
    by (simp add: world_ana_def store_ana_def)
  have b: "strip (get_or_empty form_dono_duplicado ''cpf_cnpj'') = d_cpf_cnpj ana"
    by (simp add: strip_def get_or_empty_def form_dono_duplicado_def ana_def isspace_def)
  have c: "session world_ana ''user'' \<noteq> None \<and>
           strip (get_or_empty form_dono_duplicado ''nome'') \<noteq> [] \<and>
           d_cpf_cnpj ana \<noteq> [] \<and> no_fault 0 = None"
    by (simp add: strip_def get_or_empty_def form_dono_duplicado_def ana_def isspace_def
        world_ana_def no_fault_def)
  from duplicate_tax_id_rejected [where d = ana and w = world_ana and form = form_dono_duplicado
      and F = no_fault] a b c
  show ?thesis
    by (simp add: world_ana_def store_ana_def)
qed

section \<open>Creating a Batch with a date that does not parse\<close>

lemma lotes_try_unparsable:
  assumes "py_strptime L v = None"
  shows "lotes_try L F s pid aid q (Some v) = lotes_try L F s pid aid q None"
  using assms by (simp add: lotes_try_def)

lemma lotes_post_out_of_range:
  "lotes_post pylib_exemplo no_fault form_lote_quantidade_grande world_ana =
     (Redirect ''lotes'',
      world_ana\<lparr>flashes :=
        [(''Erro ao registrar lote: Out of range value for column'', ''danger'')]\<rparr>)"
  by (simp add: lotes_post_def login_required_def Let_def get_or_empty_def truthy_def flash_def
      lotes_try_def try_bind_def int_of_def add_commit_lote_def in_int_column_def next_id_def
      pylib_exemplo_def no_fault_def form_lote_quantidade_grande_def world_ana_def store_ana_def)

text \<open>
  Claim C9. Let the registration-date field of a Batch creation be present and let
  \<open>strptime\<close> raise on it. Then the request has exactly the outcome of the same request
  without the field, so the bad date neither rejects the creation nor crashes; and when
  the rest of the request is acceptable (logged in, the three required fields present and
  numeric, the three numbers and the new primary key within the range of an INT column,
  both foreign keys existing, no fault of the database) the Batch is appended to the table
  with a NULL registration date and success is reported.
\<close>

theorem unparsable_date_stored_as_null:
  assumes "form ''data_registro'' = Some v" and "py_strptime L v = None"
  shows "lotes_post L F form w = lotes_post L F (form(''data_registro'' := None)) w \<and>
         (session w ''user'' \<noteq> None \<and>
          form ''propriedade_id'' = Some ps \<and> form ''animal_id'' = Some as \<and>
          form ''quantidade'' = Some qs \<and> ps \<noteq> [] \<and> as \<noteq> [] \<and> qs \<noteq> [] \<and>
          py_int L ps = Inr pid \<and> py_int L as = Inr aid \<and> py_int L qs = Inr qnt \<and>
          in_int_column pid \<and> in_int_column aid \<and> in_int_column qnt \<and>
          in_int_column (next_id (map l_id (tb_lote (db w)))) \<and>
          F 0 = None \<and>
          pid \<in> set (map p_id (tb_propriedade (db w))) \<and>
          aid \<in> set (map a_id (tb_animal (db w))) \<longrightarrow>
            lotes_post L F form w =
              (Redirect ''lotes'',
               w\<lparr>db := (db w)\<lparr>tb_lote := tb_lote (db w) @
                       [\<lparr> l_id = next_id (map l_id (tb_lote (db w))), l_propriedade_id = pid,
                          l_animal_id = aid, l_quantidade = qnt, l_data_registro = None \<rparr>]\<rparr>,
                 flashes := flashes w @ [(''Lote registrado com sucesso.'', ''success'')]\<rparr>))"
proof (intro conjI impI)
  show "lotes_post L F form w = lotes_post L F (form(''data_registro'' := None)) w"
    using assms
    by (simp add: lotes_post_def login_required_def Let_def get_or_empty_def
        lotes_try_unparsable)
next
  assume ok: "session w ''user'' \<noteq> None \<and>
          form ''propriedade_id'' = Some ps \<and> form ''animal_id'' = Some as \<and>
          form ''quantidade'' = Some qs \<and> ps \<noteq> [] \<and> as \<noteq> [] \<and> qs \<noteq> [] \<and>
          py_int L ps = Inr pid \<and> py_int L as = Inr aid \<and> py_int L qs = Inr qnt \<and>
          in_int_column pid \<and> in_int_column aid \<and> in_int_column qnt \<and>
          in_int_column (next_id (map l_id (tb_lote (db w)))) \<and>
          F 0 = None \<and>
          pid \<in> set (map p_id (tb_propriedade (db w))) \<and>
          aid \<in> set (map a_id (tb_animal (db w)))"
  then have "lotes_try L F (db w) ps as qs (Some v) =
      Inr ((db w)\<lparr>tb_lote := tb_lote (db w) @
                       [\<lparr> l_id = next_id (map l_id (tb_lote (db w))), l_propriedade_id = pid,
                          l_animal_id = aid, l_quantidade = qnt, l_data_registro = None \<rparr>]\<rparr>)"
    using assms(2)
    by (simp add: lotes_try_def try_bind_def int_of_def add_commit_lote_def)
  then show "lotes_post L F form w =
              (Redirect ''lotes'',
               w\<lparr>db := (db w)\<lparr>tb_lote := tb_lote (db w) @
                       [\<lparr> l_id = next_id (map l_id (tb_lote (db w))), l_propriedade_id = pid,
                          l_animal_id = aid, l_quantidade = qnt, l_data_registro = None \<rparr>]\<rparr>,
                 flashes := flashes w @ [(''Lote registrado com sucesso.'', ''success'')]\<rparr>)"
    using ok assms(1)
    by (auto simp: lotes_post_def login_required_def Let_def get_or_empty_def truthy_def flash_def)
qed

theorem unparsable_date_stored_as_null_witness:
  "lotes_post pylib_exemplo no_fault form_lote_data_ruim world_ana =
     (Redirect ''lotes'',
      world_ana\<lparr>db := (db world_ana)\<lparr>tb_lote := tb_lote (db world_ana) @
                       [\<lparr> l_id = next_id (map l_id (tb_lote (db world_ana))), l_propriedade_id = 1,
                          l_animal_id = 1, l_quantidade = 20, l_data_registro = None \<rparr>]\<rparr>,
                 flashes := flashes world_ana @ [(''Lote registrado com sucesso.'', ''success'')]\<rparr>) \<and>
   next_id (map l_id (tb_lote (db world_ana))) = 2"
proof -
  have a: "form_lote_data_ruim ''data_registro'' = Some ''02/01/2024''"
    by (simp add: form_lote_data_ruim_def)
  have b: "py_strptime pylib_exemplo ''02/01/2024'' = None"
    by (simp add: pylib_exemplo_def)
  have d: "next_id (map l_id (tb_lote (db world_ana))) = 2"
    by (simp add: world_ana_def store_ana_def next_id_def)
  have c: "session world_ana ''user'' \<noteq> None \<and>
          form_lote_data_ruim ''propriedade_id'' = Some ''1'' \<and>
          form_lote_data_ruim ''animal_id'' = Some ''1'' \<and>
          form_lote_data_ruim ''quantidade'' = Some ''20'' \<and>
          ''1'' \<noteq> [] \<and> ''1'' \<noteq> [] \<and> ''20'' \<noteq> [] \<and>
          py_int pylib_exemplo ''1'' = Inr 1 \<and> py_int pylib_exemplo ''1'' = Inr 1 \<and>
          py_int pylib_exemplo ''20'' = Inr 20 \<and>
          in_int_column 1 \<and> in_int_column 1 \<and> in_int_column 20 \<and>
          in_int_column (next_id (map l_id (tb_lote (db world_ana)))) \<and>
          no_fault 0 = None \<and>
          1 \<in> set (map p_id (tb_propriedade (db world_ana))) \<and>
          1 \<in> set (map a_id (tb_animal (db world_ana)))"
    unfolding d
    by (simp add: form_lote_data_ruim_def pylib_exemplo_def no_fault_def world_ana_def
        store_ana_def in_int_column_def)
  from unparsable_date_stored_as_null [where form = form_lote_data_ruim and v = "''02/01/2024''"
      and L = pylib_exemplo and F = no_fault and w = world_ana
      and ps = "''1''" and as = "''1''" and qs = "''20''" and pid = 1 and aid = 1 and qnt = 20]
    a b c d
  show ?thesis by blast
qed

section \<open>Totals per Owner\<close>

lemma group_by_concat:
  assumes "distinct (map kd ds)"
    and "\<And>d r. d \<in> set ds \<Longrightarrow> r \<in> set (F d) \<Longrightarrow> k r = kd d"
  shows "group_by k (concat (map F ds)) =
           map (\<lambda>d. (hd (F d), F d)) (filter (\<lambda>d. F d \<noteq> []) ds)"
  using assms
proof (induction ds)
  case Nil
  then show ?case by simp
next
  case (Cons d ds)
  let ?rest = "concat (map F ds)"
  have IH: "group_by k ?rest = map (\<lambda>d. (hd (F d), F d)) (filter (\<lambda>d. F d \<noteq> []) ds)"
    using Cons by simp
  show ?case
  proof (cases "F d")
    case Nil
    then show ?thesis using IH by simp
  next
    case (Cons r t)
    have key_r: "k r = kd d"
      using Cons.prems(2) [of d r] Cons by simp
    have same: "\<And>x. x \<in> set t \<Longrightarrow> k x = k r"
      using Cons.prems(2) [of d] Cons key_r by simp
    have other: "\<And>x. x \<in> set ?rest \<Longrightarrow> k x \<noteq> k r"
    proof -
      fix x assume "x \<in> set ?rest"
      then obtain d' where d': "d' \<in> set ds" "x \<in> set (F d')" by auto
      then have "k x = kd d'" using Cons.prems(2) [of d' x] by simp
      moreover have "kd d \<notin> set (map kd ds)" using Cons.prems(1) by simp
      then have "kd d' \<noteq> kd d" using d'(1) by (metis image_eqI set_map)
      ultimately show "k x \<noteq> k r" using key_r by simp
    qed
    have t1: "filter (\<lambda>x. k x = k r) t = t"
      by (rule filter_True) (simp add: same)
    have t2: "filter (\<lambda>x. k x \<noteq> k r) t = []"
      by (rule filter_False) (simp add: same)
    have r1: "filter (\<lambda>x. k x = k r) ?rest = []"
      by (rule filter_False) (simp add: other del: set_concat)
    have r2: "filter (\<lambda>x. k x \<noteq> k r) ?rest = ?rest"
      by (rule filter_True) (simp add: other del: set_concat)
    have "group_by k (r # t @ ?rest) = (r, r # t) # group_by k ?rest"
      by (simp only: group_by.simps filter_append t1 t2 r1 r2 append_Nil append_Nil2)
    then show ?thesis using Cons IH by simp
  qed
qed

lemma q1_join_eq: "q1_join s = concat (map (q1_rows s) (tb_dono s))"
  by (simp add: q1_join_def q1_rows_def [abs_def] spec_property_batches_def [abs_def]
      spec_owner_properties_def)

lemma q1_rows_fst: "r \<in> set (q1_rows s d) \<Longrightarrow> fst r = d"
  by (auto simp: q1_rows_def)

lemma q1_rows_lotes: "map (\<lambda>x. snd (snd x)) (q1_rows s d) = spec_owner_batches s d"
  by (simp add: q1_rows_def spec_owner_batches_def map_concat comp_def)

lemma q1_rows_empty: "q1_rows s d = [] \<longleftrightarrow> spec_owner_batches s d = []"
  using q1_rows_lotes [of s d] by (metis map_is_Nil_conv)

lemma q1_groups:
  assumes "distinct (map d_id (tb_dono s))"
  shows "group_by (\<lambda>x. d_id (fst x)) (q1_join s) =
           map (\<lambda>d. (hd (q1_rows s d), q1_rows s d))
             (filter (\<lambda>d. spec_owner_batches s d \<noteq> []) (tb_dono s))"
  unfolding q1_join_eq
  by (subst group_by_concat [where kd = d_id, OF assms])
     (auto simp: q1_rows_empty dest: q1_rows_fst)

lemma q1_row_of_group:
  assumes "spec_owner_batches s d \<noteq> []"
  shows "d_nome (fst (hd (q1_rows s d))) = d_nome d"
    and "func_COALESCE (q1_sum (hd (q1_rows s d)) (q1_rows s d)) 0 = spec_owner_total_animals s d"
proof -
  have ne: "q1_rows s d \<noteq> []" using assms by (simp add: q1_rows_empty)
  then have "hd (q1_rows s d) \<in> set (q1_rows s d)" by simp
  then have "fst (hd (q1_rows s d)) = d" by (rule q1_rows_fst)
  moreover have "map (\<lambda>x. l_quantidade (snd (snd x))) (q1_rows s d) =
      map l_quantidade (spec_owner_batches s d)"
    using q1_rows_lotes [of s d, symmetric] by (simp add: comp_def)
  ultimately show "d_nome (fst (hd (q1_rows s d))) = d_nome d"
    and "func_COALESCE (q1_sum (hd (q1_rows s d)) (q1_rows s d)) 0 = spec_owner_total_animals s d"
    using ne
    by (simp_all add: q1_sum_def func_sum_def func_COALESCE_def spec_owner_total_animals_def)
qed

lemma mset_q1:
  assumes "distinct (map d_id (tb_dono s))"
  shows "mset (q1 s) =
           mset (map (\<lambda>d. (d_nome d, spec_owner_total_animals s d))
                  (filter (\<lambda>d. spec_owner_batches s d \<noteq> []) (tb_dono s)))"
proof -
  let ?G = "map (\<lambda>d. (hd (q1_rows s d), q1_rows s d))
             (filter (\<lambda>d. spec_owner_batches s d \<noteq> []) (tb_dono s))"
  let ?row = "\<lambda>(r, g). (d_nome (fst r), func_COALESCE (q1_sum r g) 0)"
  have "mset (q1 s) = mset (map ?row ?G)"
    by (simp only: q1_def q1_groups [OF assms] mset_map mset_order_by_desc)
  also have "map ?row ?G = map (\<lambda>d. (d_nome d, spec_owner_total_animals s d))
                  (filter (\<lambda>d. spec_owner_batches s d \<noteq> []) (tb_dono s))"
    unfolding map_map comp_def
    by (rule map_cong [OF refl]) (auto simp: q1_row_of_group)
  finally show ?thesis .
qed

lemma spec_owner_has_batch_iff: "spec_owner_has_batch s d \<longleftrightarrow> spec_owner_batches s d \<noteq> []"
  by (auto simp: spec_owner_has_batch_def spec_owner_batches_def)

text \<open>
  Claim C1. In every database (Owner ids being a primary key; a Batch count is never NULL,
  the column being NOT NULL), query A returns exactly one record for each Owner that has a
  Batch on one of its Properties, carrying the Owner's name and the sum of the counts of
  all Batches of all its Properties, and no other record: an Owner with no Property, or
  whose Properties have no Batch, gets no record at all, not a zero.
\<close>

theorem query_a_totals:
  assumes "distinct (map d_id (tb_dono s))"
  shows "mset (animais_por_proprietario s) =
           mset (map (\<lambda>d. (d_nome d, spec_owner_total_animals s d))
                  (filter (spec_owner_has_batch s) (tb_dono s))) \<and>
         (\<forall>d\<in>set (tb_dono s). spec_owner_has_batch s d \<longrightarrow>
            (d_nome d, spec_owner_total_animals s d) \<in> set (animais_por_proprietario s)) \<and>
         length (animais_por_proprietario s) =
           length (filter (spec_owner_has_batch s) (tb_dono s))"
proof -
  let ?rows = "map (\<lambda>d. (d_nome d, spec_owner_total_animals s d))
                  (filter (spec_owner_has_batch s) (tb_dono s))"
  have out: "animais_por_proprietario s = q1 s"
    by (simp add: animais_por_proprietario_def)
  have m: "mset (animais_por_proprietario s) = mset ?rows"
    using mset_q1 [OF assms] by (simp add: out spec_owner_has_batch_iff [abs_def])
  then have "set (animais_por_proprietario s) = set ?rows"
    by (rule mset_eq_setD)
  moreover have "length (animais_por_proprietario s) = length ?rows"
    using m by (rule mset_eq_length)
  ultimately show ?thesis using m by auto
qed

theorem query_a_totals_witness:
  "animais_por_proprietario store_fazendas = [(''Ana'', 28)] \<and>
   filter (spec_owner_has_batch store_fazendas) (tb_dono store_fazendas) = [ana] \<and>
   spec_owner_total_animals store_fazendas ana = 28"
proof -
  have d: "distinct (map d_id (tb_dono store_fazendas))"
    by (simp add: store_fazendas_def ana_def)
  have f: "filter (spec_owner_has_batch store_fazendas) (tb_dono store_fazendas) = [ana]"
    by (simp add: store_fazendas_def ana_def spec_owner_has_batch_def spec_owner_properties_def
        spec_property_batches_def)
  have t: "spec_owner_total_animals store_fazendas ana = 28"
    by (simp add: store_fazendas_def ana_def spec_owner_total_animals_def spec_owner_batches_def
        spec_owner_properties_def spec_property_batches_def)
  from query_a_totals [OF d] have "mset (animais_por_proprietario store_fazendas) =
      mset [(d_nome ana, spec_owner_total_animals store_fazendas ana)]"
    by (simp only: f list.map)
  then have "animais_por_proprietario store_fazendas =
      [(d_nome ana, spec_owner_total_animals store_fazendas ana)]"
    by simp
  with f t show ?thesis by (simp add: ana_def)
qed

lemma q3_join_eq: "q3_join s = concat (map (q3_rows s) (tb_dono s))"
  by (simp add: q3_join_def q3_rows_def [abs_def] spec_owner_properties_def)

lemma q3_rows_fst: "r \<in> set (q3_rows s d) \<Longrightarrow> fst r = d"
  by (auto simp: q3_rows_def)

lemma q3_rows_empty: "q3_rows s d = [] \<longleftrightarrow> spec_owner_properties s d = []"
  by (simp add: q3_rows_def)

lemma q3_groups:
  assumes "distinct (map d_id (tb_dono s))"
  shows "group_by (\<lambda>x. d_id (fst x)) (q3_join s) =
           map (\<lambda>d. (hd (q3_rows s d), q3_rows s d))
             (filter (\<lambda>d. spec_owner_properties s d \<noteq> []) (tb_dono s))"
  unfolding q3_join_eq
  by (subst group_by_concat [where kd = d_id, OF assms])
     (auto simp: q3_rows_empty dest: q3_rows_fst)

lemma q3_row_of_group:
  assumes "spec_owner_properties s d \<noteq> []"
  shows "d_nome (fst (hd (q3_rows s d))) = d_nome d"
    and "func_COALESCE (q3_sum (hd (q3_rows s d)) (q3_rows s d)) 0 = spec_owner_total_hectares s d"
proof -
  have ne: "q3_rows s d \<noteq> []" using assms by (simp add: q3_rows_empty)
  then have "hd (q3_rows s d) \<in> set (q3_rows s d)" by simp
  then have "fst (hd (q3_rows s d)) = d" by (rule q3_rows_fst)
  moreover have "map (\<lambda>x. p_area_total_ha (snd x)) (q3_rows s d) =
      map p_area_total_ha (spec_owner_properties s d)"
    by (simp add: q3_rows_def comp_def)
  ultimately show "d_nome (fst (hd (q3_rows s d))) = d_nome d"
    and "func_COALESCE (q3_sum (hd (q3_rows s d)) (q3_rows s d)) 0 = spec_owner_total_hectares s d"
    using ne
    by (simp_all add: q3_sum_def func_sum_def func_COALESCE_def spec_owner_total_hectares_def)
qed

lemma mset_q3:
  assumes "distinct (map d_id (tb_dono s))"
  shows "mset (q3 s) =
           mset (map (\<lambda>d. (d_nome d, spec_owner_total_hectares s d))
                  (filter (\<lambda>d. spec_owner_properties s d \<noteq> []) (tb_dono s)))"
proof -
  let ?G = "map (\<lambda>d. (hd (q3_rows s d), q3_rows s d))
             (filter (\<lambda>d. spec_owner_properties s d \<noteq> []) (tb_dono s))"
  let ?row = "\<lambda>(r, g). (d_nome (fst r), func_COALESCE (q3_sum r g) 0)"
  have "mset (q3 s) = mset (map ?row ?G)"
    by (simp only: q3_def q3_groups [OF assms] mset_map mset_order_by_desc)
  also have "map ?row ?G = map (\<lambda>d. (d_nome d, spec_owner_total_hectares s d))
                  (filter (\<lambda>d. spec_owner_properties s d \<noteq> []) (tb_dono s))"
    unfolding map_map comp_def
    by (rule map_cong [OF refl]) (auto simp: q3_row_of_group)
  finally show ?thesis .
qed

lemma area_ana_any_lotes: "area_por_proprietario (store_ana\<lparr>tb_lote := ls\<rparr>) = [(''Ana'', 1550)]"
  by (simp add: area_por_proprietario_def q3_def q3_join_def q3_sum_def func_sum_def
      func_COALESCE_def order_by_desc_def store_ana_def ana_def)

lemma animais_ana: "animais_por_proprietario store_ana = [(''Ana'', 20)]"
  by (simp add: animais_por_proprietario_def q1_def q1_join_def q1_sum_def func_sum_def
      func_COALESCE_def order_by_desc_def store_ana_def ana_def)

text \<open>
  Claim C2. In every database, query C returns exactly one record for each Owner that has a
  Property, carrying the sum of \<open>area_total_ha\<close> over that Owner's Properties, a
  decimal with two places (counted here in hundredths). An Owner whose Properties measure
  10.00 ha and 5.50 ha gets 15.50 ha whatever the Batches are; in the database of Ana
  query C gives Ana 15.50 ha and query A gives the single record of Ana with 20 animals.
\<close>

theorem query_c_totals:
  assumes "distinct (map d_id (tb_dono s))"
  shows "mset (area_por_proprietario s) =
           mset (map (\<lambda>d. (d_nome d, spec_owner_total_hectares s d))
                  (filter (\<lambda>d. spec_owner_properties s d \<noteq> []) (tb_dono s))) \<and>
         (\<forall>d\<in>set (tb_dono s). spec_owner_properties s d \<noteq> [] \<longrightarrow>
            (d_nome d, spec_owner_total_hectares s d) \<in> set (area_por_proprietario s)) \<and>
         (\<forall>d\<in>set (tb_dono s). map p_area_total_ha (spec_owner_properties s d) = [1000, 550] \<longrightarrow>
            (d_nome d, 1550) \<in> set (area_por_proprietario s)) \<and>
         (\<forall>ls. area_por_proprietario (store_ana\<lparr>tb_lote := ls\<rparr>) = [(''Ana'', 1550)]) \<and>
         animais_por_proprietario store_ana = [(''Ana'', 20)]"
proof -
  let ?rows = "map (\<lambda>d. (d_nome d, spec_owner_total_hectares s d))
                  (filter (\<lambda>d. spec_owner_properties s d \<noteq> []) (tb_dono s))"
  have m: "mset (area_por_proprietario s) = mset ?rows"
    using mset_q3 [OF assms] by (simp add: area_por_proprietario_def)
  then have st: "set (area_por_proprietario s) = set ?rows"
    by (rule mset_eq_setD)
  have present: "(d_nome d, spec_owner_total_hectares s d) \<in> set (area_por_proprietario s)"
    if "d \<in> set (tb_dono s)" "spec_owner_properties s d \<noteq> []" for d
    using that st by auto
  have scen: "(d_nome d, 1550) \<in> set (area_por_proprietario s)"
    if "d \<in> set (tb_dono s)" "map p_area_total_ha (spec_owner_properties s d) = [1000, 550]" for d
  proof -
    have "spec_owner_properties s d \<noteq> []" using that(2) by auto
    moreover have "spec_owner_total_hectares s d = 1550"
      using that(2) by (simp add: spec_owner_total_hectares_def)
    ultimately show ?thesis using present [of d] that(1) by simp
  qed
  show ?thesis
    by (intro conjI ballI impI allI)
       (simp_all add: m present scen area_ana_any_lotes animais_ana)
qed

theorem query_c_totals_witness:
  "area_por_proprietario store_fazendas = [(''Caio'', 30000), (''Ana'', 1550)] \<and>
   map (\<lambda>d. (d_nome d, spec_owner_total_hectares store_fazendas d))
     (filter (\<lambda>d. spec_owner_properties store_fazendas d \<noteq> []) (tb_dono store_fazendas)) =
     [(''Ana'', 1550), (''Caio'', 30000)] \<and>
   (''Ana'', 1550) \<in> set (area_por_proprietario store_fazendas)"
proof -
  have d: "distinct (map d_id (tb_dono store_fazendas))"
    by (simp add: store_fazendas_def ana_def)
  have a: "ana \<in> set (tb_dono store_fazendas)"
    by (simp add: store_fazendas_def)
  have p: "map p_area_total_ha (spec_owner_properties store_fazendas ana) = [1000, 550]"
    by (simp add: store_fazendas_def ana_def spec_owner_properties_def)
  have r: "map (\<lambda>d. (d_nome d, spec_owner_total_hectares store_fazendas d))
     (filter (\<lambda>d. spec_owner_properties store_fazendas d \<noteq> []) (tb_dono store_fazendas)) =
     [(''Ana'', 1550), (''Caio'', 30000)]"
    by (simp add: store_fazendas_def ana_def spec_owner_properties_def
        spec_owner_total_hectares_def)
  have e: "area_por_proprietario store_fazendas = [(''Caio'', 30000), (''Ana'', 1550)]"
    by (simp add: area_por_proprietario_def q3_def q3_join_def q3_sum_def func_sum_def
      func_COALESCE_def order_by_desc_def store_fazendas_def ana_def)
  from query_c_totals [OF d] have "\<forall>d\<in>set (tb_dono store_fazendas).
         map p_area_total_ha (spec_owner_properties store_fazendas d) = [1000, 550] \<longrightarrow>
            (d_nome d, 1550) \<in> set (area_por_proprietario store_fazendas)"
    by (elim conjE)
  with a p have "(d_nome ana, 1550) \<in> set (area_por_proprietario store_fazendas)"
    by (elim ballE [where x = ana]) simp_all
  with e r show ?thesis by (simp add: ana_def)
qed

section \<open>Groups of a GROUP BY\<close>

lemma group_by_fst_mem: "(r, g) \<in> set (group_by k rs) \<Longrightarrow> r \<in> set rs"
proof (induction k rs arbitrary: r g rule: group_by.induct)
  case (1 k)
  then show ?case by simp
next
  case (2 k r0 rs)
  from "2.prems" consider "r = r0"
    | "(r, g) \<in> set (group_by k (filter (\<lambda>x. k x \<noteq> k r0) rs))"
    by (simp only: group_by.simps set_simps insert_iff prod.inject) blast
  then show ?case
  proof cases
    case 1
    then show ?thesis by simp
  next
    case 2
    then have "r \<in> set (filter (\<lambda>x. k x \<noteq> k r0) rs)" by (rule "2.IH")
    then show ?thesis by simp
  qed
qed

lemma group_by_rows:
  "(r, g) \<in> set (group_by k rs) \<Longrightarrow> g = filter (\<lambda>x. k x = k r) rs"
proof (induction k rs arbitrary: r g rule: group_by.induct)
  case (1 k)
  then show ?case by simp
next
  case (2 k r0 rs)
  show ?case
  proof (cases "(r, g) = (r0, r0 # filter (\<lambda>x. k x = k r0) rs)")
    case True
    then show ?thesis by simp
  next
    case False
    then have mem: "(r, g) \<in> set (group_by k (filter (\<lambda>x. k x \<noteq> k r0) rs))"
      using "2.prems" by auto
    then have "r \<in> set (filter (\<lambda>x. k x \<noteq> k r0) rs)" by (rule group_by_fst_mem)
    then have ne: "k r \<noteq> k r0" by simp
    have "g = filter (\<lambda>x. k x = k r) (filter (\<lambda>x. k x \<noteq> k r0) rs)"
      using mem by (rule "2.IH")
    also have "\<dots> = filter (\<lambda>x. k x = k r) rs"
      using ne by (auto intro: filter_cong)
    finally show ?thesis using ne by auto
  qed
qed

lemma group_by_keys_distinct: "distinct (map (\<lambda>x. k (fst x)) (group_by k rs))"
proof (induction k rs rule: group_by.induct)
  case (1 k)
  then show ?case by simp
next
  case (2 k r rs)
  let ?G = "group_by k (filter (\<lambda>x. k x \<noteq> k r) rs)"
  have ne: "k (fst x) \<noteq> k r" if "x \<in> set ?G" for x
  proof -
    obtain r' g' where x: "x = (r', g')" by (cases x)
    with that have "(r', g') \<in> set ?G" by simp
    then have "r' \<in> set (filter (\<lambda>x. k x \<noteq> k r) rs)" by (rule group_by_fst_mem)
    then show ?thesis using x by simp
  qed
  have fresh: "k r \<notin> set (map (\<lambda>x. k (fst x)) ?G)"
  proof
    assume "k r \<in> set (map (\<lambda>x. k (fst x)) ?G)"
    then obtain x where "x \<in> set ?G" "k (fst x) = k r" by (metis (no_types, lifting) imageE set_map)
    then show False using ne by blast
  qed
  have "map (\<lambda>x. k (fst x)) (group_by k (r # rs)) = k r # map (\<lambda>x. k (fst x)) ?G"
    by (simp only: group_by.simps list.map fst_conv)
  then show ?case using fresh "2.IH" by (simp only: distinct.simps simp_thms)
qed

lemma group_by_keys_set: "(\<lambda>x. k (fst x)) ` set (group_by k rs) = k ` set rs"
proof (induction k rs rule: group_by.induct)
  case (1 k)
  then show ?case by simp
next
  case (2 k r rs)
  have "k ` set (r # rs) = insert (k r) (k ` set (filter (\<lambda>x. k x \<noteq> k r) rs))"
    by auto
  then show ?case using 2 by simp
qed

lemma sum_list_filter_split:
  fixes f :: "'a \<Rightarrow> int"
  shows "sum_list (map f (filter P xs)) + sum_list (map f (filter (\<lambda>x. \<not> P x) xs)) =
         sum_list (map f xs)"
  by (induction xs) auto

lemma group_by_sum:
  fixes f :: "'a \<Rightarrow> int"
  shows "sum_list (map (\<lambda>x. sum_list (map f (snd x))) (group_by k rs)) = sum_list (map f rs)"
proof (induction k rs rule: group_by.induct)
  case (1 k)
  then show ?case by simp
next
  case (2 k r rs)
  have "sum_list (map (\<lambda>x. sum_list (map f (snd x))) (group_by k (r # rs))) =
        f r + sum_list (map f (filter (\<lambda>x. k x = k r) rs)) +
        sum_list (map f (filter (\<lambda>x. k x \<noteq> k r) rs))"
    using 2 by simp
  also have "\<dots> = f r + sum_list (map f rs)"
    using sum_list_filter_split [of f "\<lambda>x. k x = k r" rs] by simp
  finally show ?case by simp
qed

lemma sum_list_order_by_desc:
  fixes h :: "'a \<Rightarrow> int"
  shows "sum_list (map h (order_by_desc f xs)) = sum_list (map h xs)"
proof -
  have "mset (map h (order_by_desc f xs)) = mset (map h xs)"
    by (simp add: mset_order_by_desc)
  then show ?thesis by (metis sum_mset_sum_list)
qed

lemma distinct_map_order_by_desc:
  "distinct (map h (order_by_desc f xs)) = distinct (map h xs)"
proof -
  have "mset (map h (order_by_desc f xs)) = mset (map h xs)"
    by (simp add: mset_order_by_desc)
  then show ?thesis by (rule mset_eq_imp_distinct_iff)
qed

lemma distinct_key_single:
  assumes "distinct (map fst xs)" and "(a, b) \<in> set xs"
  shows "filter (\<lambda>x. fst x = a) xs = [(a, b)]"
  using assms
proof (induction xs)
  case Nil
  then show ?case by simp
next
  case (Cons x xs)
  show ?case
  proof (cases "x = (a, b)")
    case True
    then have "a \<notin> fst ` set xs" using Cons.prems(1) by auto
    then have "\<forall>y\<in>set xs. fst y \<noteq> a" by auto
    then have "filter (\<lambda>x. fst x = a) xs = []" by (auto simp: filter_empty_conv)
    then show ?thesis using True by simp
  next
    case False
    then have mem: "(a, b) \<in> set xs" using Cons.prems(2) by auto
    have "fst x \<notin> fst ` set xs" using Cons.prems(1) by simp
    with mem have "fst x \<noteq> a" by (metis fst_conv image_eqI)
    with mem show ?thesis using Cons by simp
  qed
qed

section \<open>Farms per state\<close>

lemma q4_keys: "map fst (q4 s) =
    map (\<lambda>x. p_estado (fst x)) (order_by_desc (\<lambda>(r, g). q4_count r g) (group_by p_estado (tb_propriedade s)))"
  by (simp add: q4_def case_prod_unfold comp_def)

lemma q4_distinct: "distinct (map fst (q4 s))"
  by (simp only: q4_keys distinct_map_order_by_desc group_by_keys_distinct)

lemma q4_mem:
  "(e, n) \<in> set (q4 s) \<longleftrightarrow>
     (\<exists>p\<in>set (tb_propriedade s). p_estado p = e) \<and>
     n = int (length (filter (\<lambda>p. p_estado p = e) (tb_propriedade s)))"
proof
  assume "(e, n) \<in> set (q4 s)"
  then obtain r g where rg: "(r, g) \<in> set (group_by p_estado (tb_propriedade s))"
    and e: "e = p_estado r" and n: "n = int (length g)"
    by (auto simp: q4_def q4_count_def set_order_by_desc)
  from rg have "g = filter (\<lambda>x. p_estado x = p_estado r) (tb_propriedade s)"
    by (rule group_by_rows)
  moreover from rg have "r \<in> set (tb_propriedade s)" by (rule group_by_fst_mem)
  ultimately show "(\<exists>p\<in>set (tb_propriedade s). p_estado p = e) \<and>
     n = int (length (filter (\<lambda>p. p_estado p = e) (tb_propriedade s)))"
    using e n by auto
next
  assume a: "(\<exists>p\<in>set (tb_propriedade s). p_estado p = e) \<and>
     n = int (length (filter (\<lambda>p. p_estado p = e) (tb_propriedade s)))"
  then have "e \<in> p_estado ` set (tb_propriedade s)" by auto
  then have "e \<in> (\<lambda>x. p_estado (fst x)) ` set (group_by p_estado (tb_propriedade s))"
    by (simp only: group_by_keys_set)
  then obtain r g where rg: "(r, g) \<in> set (group_by p_estado (tb_propriedade s))"
    and e: "e = p_estado r" by auto
  from rg have "g = filter (\<lambda>x. p_estado x = p_estado r) (tb_propriedade s)"
    by (rule group_by_rows)
  then have "n = int (length g)" using a e by simp
  then have "(e, n) = (\<lambda>(r, g). (p_estado r, q4_count r g)) (r, g)"
    using e by (simp add: q4_count_def)
  then show "(e, n) \<in> set (q4 s)"
    using rg unfolding q4_def set_map set_order_by_desc by (rule image_eqI)
qed

lemma q4_total: "sum_list (map snd (q4 s)) = int (length (tb_propriedade s))"
proof -
  let ?G = "group_by p_estado (tb_propriedade s)"
  have "sum_list (map snd (q4 s)) =
        sum_list (map (\<lambda>x. int (length (snd x))) (order_by_desc (\<lambda>(r, g). q4_count r g) ?G))"
    by (simp add: q4_def q4_count_def case_prod_unfold comp_def)
  also have "\<dots> = sum_list (map (\<lambda>x. int (length (snd x))) ?G)"
    by (rule sum_list_order_by_desc)
  also have "\<dots> = sum_list (map (\<lambda>x. sum_list (map (\<lambda>_. 1) (snd x))) ?G)"
    by (simp add: sum_list_triv)
  also have "\<dots> = sum_list (map (\<lambda>_. 1) (tb_propriedade s))"
    by (rule group_by_sum)
  finally show ?thesis by (simp add: sum_list_triv)
qed

text \<open>
  Claim C4. In every database the farm counts of query D add up to the number of
  Properties. There is one group per state value, holding all Properties with that value;
  so the Properties whose state is empty (the column is NOT NULL, there is no NULL state)
  form exactly one group, which is shown under the label "Nao informado" (with a-tilde),
  and there is no such group when no Property has an empty state.
\<close>

theorem query_d_counts:
  "sum_list (map snd (fazendas_por_estado s)) = int (length (tb_propriedade s)) \<and>
   fazendas_por_estado s = map (\<lambda>(estado, n). (estado_label estado, n)) (q4 s) \<and>
   estado_label [] = Nao_informado \<and>
   distinct (map fst (q4 s)) \<and>
   ((\<exists>p\<in>set (tb_propriedade s). p_estado p = []) \<longrightarrow>
      filter (\<lambda>x. fst x = []) (q4 s) =
        [([], int (length (filter (\<lambda>p. p_estado p = []) (tb_propriedade s))))] \<and>
      (Nao_informado, int (length (filter (\<lambda>p. p_estado p = []) (tb_propriedade s))))
        \<in> set (fazendas_por_estado s)) \<and>
   ((\<forall>p\<in>set (tb_propriedade s). p_estado p \<noteq> []) \<longrightarrow> filter (\<lambda>x. fst x = []) (q4 s) = [])"
proof (intro conjI impI)
  show "sum_list (map snd (fazendas_por_estado s)) = int (length (tb_propriedade s))"
    using q4_total [of s] by (simp add: fazendas_por_estado_def case_prod_unfold comp_def)
  show "fazendas_por_estado s = map (\<lambda>(estado, n). (estado_label estado, n)) (q4 s)"
    by (simp add: fazendas_por_estado_def)
  show "estado_label [] = Nao_informado"
    by (simp add: estado_label_def)
  show "distinct (map fst (q4 s))"
    by (rule q4_distinct)
next
  let ?n = "int (length (filter (\<lambda>p. p_estado p = []) (tb_propriedade s)))"
  assume "\<exists>p\<in>set (tb_propriedade s). p_estado p = []"
  then have mem: "([], ?n) \<in> set (q4 s)" by (simp add: q4_mem)
  with q4_distinct show "filter (\<lambda>x. fst x = []) (q4 s) = [([], ?n)]"
    by (rule distinct_key_single)
  have "(estado_label [], ?n) \<in> (\<lambda>(estado, n). (estado_label estado, n)) ` set (q4 s)"
    using mem by force
  then show "(Nao_informado, ?n) \<in> set (fazendas_por_estado s)"
    by (simp add: fazendas_por_estado_def estado_label_def)
next
  assume none: "\<forall>p\<in>set (tb_propriedade s). p_estado p \<noteq> []"
  have "fst x \<noteq> []" if "x \<in> set (q4 s)" for x
  proof -
    obtain e n where x: "x = (e, n)" by (cases x)
    with that have "\<exists>p\<in>set (tb_propriedade s). p_estado p = e" by (simp add: q4_mem)
    with none show ?thesis using x by auto
  qed
  then show "filter (\<lambda>x. fst x = []) (q4 s) = []"
    by (simp add: filter_empty_conv)
qed

theorem query_d_counts_witness:
  "fazendas_por_estado store_fazendas = [(''SC'', 2), (Nao_informado, 1)] \<and>
   sum_list (map snd (fazendas_por_estado store_fazendas)) = 3 \<and>
   filter (\<lambda>x. fst x = []) (q4 store_fazendas) = [([], 1)]"
proof -
  have e: "\<exists>p\<in>set (tb_propriedade store_fazendas). p_estado p = []"
    by (simp add: store_fazendas_def)
  have n: "int (length (filter (\<lambda>p. p_estado p = []) (tb_propriedade store_fazendas))) = 1"
    by (simp add: store_fazendas_def)
  have l: "int (length (tb_propriedade store_fazendas)) = 3"
    by (simp add: store_fazendas_def)
  have v: "fazendas_por_estado store_fazendas = [(''SC'', 2), (Nao_informado, 1)]"
    by (simp add: fazendas_por_estado_def q4_def q4_count_def order_by_desc_def
        store_fazendas_def estado_label_def)
  note th = query_d_counts [of store_fazendas]
  have t: "sum_list (map snd (fazendas_por_estado store_fazendas)) =
           int (length (tb_propriedade store_fazendas))"
    by (rule th [THEN conjunct1])
  have f: "(\<exists>p\<in>set (tb_propriedade store_fazendas). p_estado p = []) \<longrightarrow>
      filter (\<lambda>x. fst x = []) (q4 store_fazendas) =
        [([], int (length (filter (\<lambda>p. p_estado p = []) (tb_propriedade store_fazendas))))] \<and>
      (Nao_informado, int (length (filter (\<lambda>p. p_estado p = []) (tb_propriedade store_fazendas))))
        \<in> set (fazendas_por_estado store_fazendas)"
    by (rule th [THEN conjunct2, THEN conjunct2, THEN conjunct2, THEN conjunct2, THEN conjunct1])
  from f e have "filter (\<lambda>x. fst x = []) (q4 store_fazendas) =
        [([], int (length (filter (\<lambda>p. p_estado p = []) (tb_propriedade store_fazendas))))]"
    by (elim impE conjE)
  then have "filter (\<lambda>x. fst x = []) (q4 store_fazendas) = [([], 1)]"
    by (simp only: n)
  with t l v show ?thesis by (simp only: simp_thms)
qed

section \<open>Animals per breed\<close>

lemma filter_concat_map_key:
  assumes "\<And>a x. a \<in> set as \<Longrightarrow> x \<in> set (F a) \<Longrightarrow> P x = Q a"
  shows "filter P (concat (map F as)) = concat (map F (filter Q as))"
  using assms
proof (induction as)
  case Nil
  then show ?case by simp
next
  case (Cons a as)
  have "filter P (F a) = (if Q a then F a else [])"
    using Cons.prems [of a] by (auto simp: filter_empty_conv intro: filter_True)
  then show ?case using Cons by simp
qed

lemma sum_list_filter_disj:
  fixes f :: "'a \<Rightarrow> int"
  assumes "\<And>x. x \<in> set xs \<Longrightarrow> \<not> (P x \<and> Q x)"
  shows "sum_list (map f (filter (\<lambda>x. P x \<or> Q x) xs)) =
         sum_list (map f (filter P xs)) + sum_list (map f (filter Q xs))"
  using assms by (induction xs) auto

lemma sum_list_join_resolved:
  fixes f :: "'l \<Rightarrow> int"
  assumes "distinct (map ka as)"
  shows "sum_list (map f (concat (map (\<lambda>a. filter (\<lambda>l. kl l = ka a) ls) as))) =
         sum_list (map f (filter (\<lambda>l. kl l \<in> set (map ka as)) ls))"
  using assms
proof (induction as)
  case Nil
  then show ?case by simp
next
  case (Cons a as)
  have "sum_list (map f (filter (\<lambda>l. kl l \<in> set (map ka (a # as))) ls)) =
        sum_list (map f (filter (\<lambda>l. kl l = ka a \<or> kl l \<in> set (map ka as)) ls))"
    by simp
  also have "\<dots> = sum_list (map f (filter (\<lambda>l. kl l = ka a) ls)) +
                  sum_list (map f (filter (\<lambda>l. kl l \<in> set (map ka as)) ls))"
    using Cons.prems by (intro sum_list_filter_disj) auto
  finally show ?case using Cons by simp
qed

lemma distinct_key_at_most_one:
  assumes "distinct (map fst xs)"
  shows "length (filter (\<lambda>x. fst x = a) xs) \<le> 1"
proof (cases "\<exists>b. (a, b) \<in> set xs")
  case True
  then obtain b where "(a, b) \<in> set xs" by blast
  with assms have "filter (\<lambda>x. fst x = a) xs = [(a, b)]" by (rule distinct_key_single)
  then show ?thesis by simp
next
  case False
  then have "filter (\<lambda>x. fst x = a) xs = []"
    by (auto simp: filter_empty_conv)
  then show ?thesis by simp
qed

lemma q2_join_eq:
  "q2_join s = concat (map (\<lambda>a. map (\<lambda>l. (a, l)) (spec_animal_batches s a)) (tb_animal s))"
  by (simp add: q2_join_def spec_animal_batches_def)

lemma q2_join_breed:
  "map (\<lambda>x. l_quantidade (snd x)) (filter (\<lambda>x. a_raca (fst x) = b) (q2_join s)) =
   map l_quantidade (spec_breed_batches s b)"
proof -
  have "filter (\<lambda>x. a_raca (fst x) = b) (q2_join s) =
        concat (map (\<lambda>a. map (\<lambda>l. (a, l)) (spec_animal_batches s a))
                 (filter (\<lambda>a. a_raca a = b) (tb_animal s)))"
    unfolding q2_join_eq by (rule filter_concat_map_key) auto
  then show ?thesis
    by (simp add: spec_breed_batches_def map_concat comp_def)
qed

lemma q2_join_breed_empty:
  "filter (\<lambda>x. a_raca (fst x) = b) (q2_join s) = [] \<longleftrightarrow> spec_breed_batches s b = []"
  using q2_join_breed [of b s] by (metis map_is_Nil_conv)

lemma q2_keys: "map fst (q2 s) =
    map (\<lambda>x. a_raca (fst (fst x)))
      (order_by_desc (\<lambda>(r, g). q2_sum r g) (group_by (\<lambda>x. a_raca (fst x)) (q2_join s)))"
  by (simp add: q2_def case_prod_unfold comp_def)

lemma q2_distinct: "distinct (map fst (q2 s))"
  using group_by_keys_distinct [of "\<lambda>x. a_raca (fst x)" "q2_join s"]
  by (simp only: q2_keys distinct_map_order_by_desc)

lemma q2_group_total:
  assumes "(r, g) \<in> set (group_by (\<lambda>x. a_raca (fst x)) (q2_join s))"
  shows "func_COALESCE (q2_sum r g) 0 = spec_breed_total s (a_raca (fst r))"
    and "spec_breed_batches s (a_raca (fst r)) \<noteq> []"
proof -
  have g: "g = filter (\<lambda>x. a_raca (fst x) = a_raca (fst r)) (q2_join s)"
    using assms by (rule group_by_rows)
  have ne: "g \<noteq> []" using group_by_head [OF assms] by auto
  show "spec_breed_batches s (a_raca (fst r)) \<noteq> []"
    using ne g q2_join_breed_empty [of "a_raca (fst r)" s] by simp
  have "map (\<lambda>x. l_quantidade (snd x)) g = map l_quantidade (spec_breed_batches s (a_raca (fst r)))"
    unfolding g by (rule q2_join_breed)
  then show "func_COALESCE (q2_sum r g) 0 = spec_breed_total s (a_raca (fst r))"
    using ne by (simp add: q2_sum_def func_sum_def func_COALESCE_def spec_breed_total_def)
qed

lemma q2_mem:
  "(b, t) \<in> set (q2 s) \<longleftrightarrow> spec_breed_batches s b \<noteq> [] \<and> t = spec_breed_total s b"
proof
  assume "(b, t) \<in> set (q2 s)"
  then obtain r g where rg: "(r, g) \<in> set (group_by (\<lambda>x. a_raca (fst x)) (q2_join s))"
    and b: "b = a_raca (fst r)" and t: "t = func_COALESCE (q2_sum r g) 0"
    by (auto simp: q2_def set_order_by_desc)
  show "spec_breed_batches s b \<noteq> [] \<and> t = spec_breed_total s b"
    using q2_group_total [OF rg] b t by simp
next
  assume a: "spec_breed_batches s b \<noteq> [] \<and> t = spec_breed_total s b"
  then have "filter (\<lambda>x. a_raca (fst x) = b) (q2_join s) \<noteq> []"
    by (simp add: q2_join_breed_empty)
  then have "b \<in> (\<lambda>x. a_raca (fst x)) ` set (q2_join s)"
    by (auto simp: filter_empty_conv)
  then have "b \<in> (\<lambda>x. a_raca (fst (fst x))) ` set (group_by (\<lambda>x. a_raca (fst x)) (q2_join s))"
    using group_by_keys_set [of "\<lambda>x. a_raca (fst x)" "q2_join s"] by simp
  then obtain r g where rg: "(r, g) \<in> set (group_by (\<lambda>x. a_raca (fst x)) (q2_join s))"
    and b: "b = a_raca (fst r)" by auto
  have "t = func_COALESCE (q2_sum r g) 0"
    using q2_group_total(1) [OF rg] a b by simp
  then have "(b, t) = (\<lambda>(r, g). (a_raca (fst r), func_COALESCE (q2_sum r g) 0)) (r, g)"
    using b by simp
  then show "(b, t) \<in> set (q2 s)"
    using rg unfolding q2_def set_map set_order_by_desc by (rule image_eqI)
qed

lemma q2_total:
  "sum_list (map snd (q2 s)) = sum_list (map (\<lambda>x. l_quantidade (snd x)) (q2_join s))"
proof -
  let ?G = "group_by (\<lambda>x. a_raca (fst x)) (q2_join s)"
  let ?f = "\<lambda>x. l_quantidade (snd x)"
  have "sum_list (map snd (q2 s)) =
        sum_list (map (\<lambda>x. func_COALESCE (q2_sum (fst x) (snd x)) 0)
          (order_by_desc (\<lambda>(r, g). q2_sum r g) ?G))"
    by (simp add: q2_def case_prod_unfold comp_def)
  also have "\<dots> = sum_list (map (\<lambda>x. func_COALESCE (q2_sum (fst x) (snd x)) 0) ?G)"
    by (rule sum_list_order_by_desc)
  also have "map (\<lambda>x. func_COALESCE (q2_sum (fst x) (snd x)) 0) ?G =
             map (\<lambda>x. sum_list (map ?f (snd x))) ?G"
    by (rule map_cong [OF refl])
       (auto simp: q2_sum_def func_sum_def func_COALESCE_def)
  also have "sum_list (map (\<lambda>x. sum_list (map ?f (snd x))) ?G) = sum_list (map ?f (q2_join s))"
    by (rule group_by_sum)
  finally show ?thesis .
qed

lemma q2_total_resolved:
  assumes "distinct (map a_id (tb_animal s))"
  shows "sum_list (map snd (q2 s)) =
         sum_list (map l_quantidade
           (filter (\<lambda>l. l_animal_id l \<in> set (map a_id (tb_animal s))) (tb_lote s)))"
proof -
  have "map (\<lambda>x. l_quantidade (snd x)) (q2_join s) =
        map l_quantidade (concat (map (\<lambda>a. filter (\<lambda>l. l_animal_id l = a_id a) (tb_lote s))
          (tb_animal s)))"
    by (simp add: q2_join_def map_concat comp_def)
  then show ?thesis
    using sum_list_join_resolved [OF assms, of l_quantidade l_animal_id "tb_lote s"]
    by (simp add: q2_total)
qed

text \<open>
  Claim C3 says that the Batches whose AnimalKind has a NULL or an empty breed all fall
  into one output group. GROUP BY keeps NULL and the empty string apart and the label is
  put in afterwards: with one breed NULL and one empty there are two groups under the
  label.
\<close>

theorem query_b_two_groups_counterexample:
  "animais_por_raca store_fazendas = [(''Nelore'', 20), (Nao_informado, 5), (Nao_informado, 3)]"
  by (simp add: animais_por_raca_def q2_def q2_join_def q2_sum_def func_sum_def
      func_COALESCE_def order_by_desc_def store_fazendas_def raca_label_def)

text \<open>
  Claim C3, amended. In every database query B has one group per breed value, holding all
  Batches whose AnimalKind has that value, with their summed count: the Batches of a NULL
  breed form one group and those of an empty breed form one other group, both shown under
  the label "Nao informado" (with a-tilde); when no stored breed is the empty string there
  is at most one such group. No input makes the query fail. When the AnimalKind ids are a
  primary key, the totals of all groups add up to the sum of the counts of the Batches
  whose AnimalKind reference resolves.
\<close>

theorem query_b_groups:
  "animais_por_raca s = map (\<lambda>(raca, total). (raca_label raca, total)) (q2 s) \<and>
   raca_label None = Nao_informado \<and> raca_label (Some []) = Nao_informado \<and>
   distinct (map fst (q2 s)) \<and>
   (\<forall>b t. (b, t) \<in> set (q2 s) \<longleftrightarrow> spec_breed_batches s b \<noteq> [] \<and> t = spec_breed_total s b) \<and>
   ((\<forall>a\<in>set (tb_animal s). a_raca a \<noteq> Some []) \<longrightarrow>
      length (filter (\<lambda>x. fst x = None \<or> fst x = Some []) (q2 s)) \<le> 1) \<and>
   (distinct (map a_id (tb_animal s)) \<longrightarrow>
      sum_list (map snd (animais_por_raca s)) =
      sum_list (map l_quantidade
        (filter (\<lambda>l. l_animal_id l \<in> set (map a_id (tb_animal s))) (tb_lote s))))"
proof (intro conjI impI allI)
  show "animais_por_raca s = map (\<lambda>(raca, total). (raca_label raca, total)) (q2 s)"
    by (simp add: animais_por_raca_def)
  show "raca_label None = Nao_informado" "raca_label (Some []) = Nao_informado"
    by (simp_all add: raca_label_def)
  show "distinct (map fst (q2 s))"
    by (rule q2_distinct)
  show "(b, t) \<in> set (q2 s) \<longleftrightarrow> spec_breed_batches s b \<noteq> [] \<and> t = spec_breed_total s b" for b t
    by (rule q2_mem)
next
  assume none: "\<forall>a\<in>set (tb_animal s). a_raca a \<noteq> Some []"
  have "fst x \<noteq> Some []" if "x \<in> set (q2 s)" for x
  proof -
    obtain b t where x: "x = (b, t)" by (cases x)
    with that have "spec_breed_batches s b \<noteq> []" by (simp add: q2_mem)
    then obtain a where "a \<in> set (tb_animal s)" "a_raca a = b"
      by (auto simp: spec_breed_batches_def)
    with none show ?thesis using x by auto
  qed
  then have "filter (\<lambda>x. fst x = None \<or> fst x = Some []) (q2 s) =
             filter (\<lambda>x. fst x = None) (q2 s)"
    by (intro filter_cong) auto
  then show "length (filter (\<lambda>x. fst x = None \<or> fst x = Some []) (q2 s)) \<le> 1"
    using distinct_key_at_most_one [OF q2_distinct, of None s] by simp
next
  assume "distinct (map a_id (tb_animal s))"
  then show "sum_list (map snd (animais_por_raca s)) =
      sum_list (map l_quantidade
        (filter (\<lambda>l. l_animal_id l \<in> set (map a_id (tb_animal s))) (tb_lote s)))"
    using q2_total_resolved [of s]
    by (simp add: animais_por_raca_def case_prod_unfold comp_def)
qed

theorem query_b_groups_witness:
  "(None, 5) \<in> set (q2 store_fazendas) \<and> (Some [], 3) \<in> set (q2 store_fazendas) \<and>
   (Some ''Nelore'', 20) \<in> set (q2 store_fazendas) \<and>
   sum_list (map snd (animais_por_raca store_fazendas)) = 28 \<and>
   (None, 8) \<in> set (q2 store_racas_nulas) \<and>
   length (filter (\<lambda>x. fst x = None \<or> fst x = Some []) (q2 store_racas_nulas)) \<le> 1 \<and>
   sum_list (map snd (animais_por_raca store_racas_nulas)) = 28"
proof -
  note f = query_b_groups [of store_fazendas]
  note n = query_b_groups [of store_racas_nulas]
  note f_breed = f [THEN conjunct2, THEN conjunct2, THEN conjunct2, THEN conjunct2,
      THEN conjunct1, rule_format]
  note n_breed = n [THEN conjunct2, THEN conjunct2, THEN conjunct2, THEN conjunct2,
      THEN conjunct1, rule_format]
  have "spec_breed_batches store_fazendas None \<noteq> [] \<and>
        5 = spec_breed_total store_fazendas None"
    by (simp add: spec_breed_total_def spec_breed_batches_def spec_animal_batches_def
        store_fazendas_def)
  then have null_group: "(None, 5) \<in> set (q2 store_fazendas)"
    by (rule f_breed [THEN iffD2])
  have "spec_breed_batches store_fazendas (Some []) \<noteq> [] \<and>
        3 = spec_breed_total store_fazendas (Some [])"
    by (simp add: spec_breed_total_def spec_breed_batches_def spec_animal_batches_def
        store_fazendas_def)
  then have empty_group: "(Some [], 3) \<in> set (q2 store_fazendas)"
    by (rule f_breed [THEN iffD2])
  have "spec_breed_batches store_fazendas (Some ''Nelore'') \<noteq> [] \<and>
        20 = spec_breed_total store_fazendas (Some ''Nelore'')"
    by (simp add: spec_breed_total_def spec_breed_batches_def spec_animal_batches_def
        store_fazendas_def)
  then have named_group: "(Some ''Nelore'', 20) \<in> set (q2 store_fazendas)"
    by (rule f_breed [THEN iffD2])
  have "distinct (map a_id (tb_animal store_fazendas))"
    by (simp add: store_fazendas_def)
  with f [THEN conjunct2, THEN conjunct2, THEN conjunct2, THEN conjunct2, THEN conjunct2,
      THEN conjunct2]
  have "sum_list (map snd (animais_por_raca store_fazendas)) =
      sum_list (map l_quantidade
        (filter (\<lambda>l. l_animal_id l \<in> set (map a_id (tb_animal store_fazendas)))
          (tb_lote store_fazendas)))"
    by (rule mp)
  then have f_sum: "sum_list (map snd (animais_por_raca store_fazendas)) = 28"
    by (simp add: store_fazendas_def)
  have "spec_breed_batches store_racas_nulas None \<noteq> [] \<and>
        8 = spec_breed_total store_racas_nulas None"
    by (simp add: spec_breed_total_def spec_breed_batches_def spec_animal_batches_def
        store_racas_nulas_def)
  then have one_null_group: "(None, 8) \<in> set (q2 store_racas_nulas)"
    by (rule n_breed [THEN iffD2])
  have "\<forall>a\<in>set (tb_animal store_racas_nulas). a_raca a \<noteq> Some []"
    by (simp add: store_racas_nulas_def)
  with n [THEN conjunct2, THEN conjunct2, THEN conjunct2, THEN conjunct2, THEN conjunct2,
      THEN conjunct1]
  have at_most_one: "length (filter (\<lambda>x. fst x = None \<or> fst x = Some [])
      (q2 store_racas_nulas)) \<le> 1"
    by (rule mp)
  have "distinct (map a_id (tb_animal store_racas_nulas))"
    by (simp add: store_racas_nulas_def)
  with n [THEN conjunct2, THEN conjunct2, THEN conjunct2, THEN conjunct2, THEN conjunct2,
      THEN conjunct2]
  have "sum_list (map snd (animais_por_raca store_racas_nulas)) =
      sum_list (map l_quantidade
        (filter (\<lambda>l. l_animal_id l \<in> set (map a_id (tb_animal store_racas_nulas)))
          (tb_lote store_racas_nulas)))"
    by (rule mp)
  then have n_sum: "sum_list (map snd (animais_por_raca store_racas_nulas)) = 28"
    by (simp add: store_racas_nulas_def)
  from null_group empty_group named_group f_sum one_null_group at_most_one n_sum
  show ?thesis by (intro conjI)
qed

end
